theory Spec2Isabelle
  imports Complex_Main
begin

section \<open>Numbers\<close>

text \<open>
  The program computes with JavaScript numbers, which are IEEE 754 double-precision
  values. Its functions are embedded here for an arbitrary number type \<open>'a\<close> that has the
  operations the source uses (\<open>0\<close>, \<open>1\<close>, \<open>+\<close>, \<open>-\<close>, \<open>*\<close>, \<open>/\<close>, \<open>abs\<close>, \<open><\<close>,
  \<open>\<le>\<close>), without assuming any law about them. A theorem stated for every such \<open>'a\<close>
  depends on no property of the arithmetic. The type \<open>double\<close> below is the program's
  arithmetic; theorems that need the laws of exact arithmetic are stated for ordered fields
  (the rationals, the reals), where nothing is rounded.

  Numeric literals of the source are built from \<open>1\<close>: the literal \<open>1e-12\<close> is
  \<open>1 / ten ^ 12\<close>, the literal \<open>0.85\<close> is \<open>dec 85 2\<close>, that is \<open>85 / 10 ^ 2\<close>. In double
  arithmetic the integers involved are represented exactly, so the quotient is the double
  nearest to the decimal, which is the value the literal denotes. An integer such as an
  array length becomes a number by \<open>num_of_nat\<close>.
\<close>

definition ten :: "'a::{one,plus}" where
  "ten = 1 + 1 + 1 + 1 + 1 + 1 + 1 + 1 + 1 + 1"

primrec num_of_nat :: "nat \<Rightarrow> 'a::{zero,one,plus}" where
  "num_of_nat 0 = 0"
| "num_of_nat (Suc n) = num_of_nat n + 1"

definition dec :: "nat \<Rightarrow> nat \<Rightarrow> 'a::{zero,plus,minus,uminus,inverse,abs,ord,power}" where
  "dec a k = num_of_nat a / ten ^ k"

text \<open>
  Reading an array beyond its end gives \<open>undefined\<close>, which arithmetic converts to NaN,
  the value of \<open>0 / 0\<close>.
\<close>

definition nan :: "'a::{zero,plus,minus,uminus,inverse,abs,ord,power}" where
  "nan = 0 / 0"

definition idx :: "'a::{zero,plus,minus,uminus,inverse,abs,ord,power} list \<Rightarrow> nat \<Rightarrow> 'a" where
  "idx xs i = (if i < length xs then xs ! i else nan)"

section \<open>Double-precision numbers\<close>

text \<open>
  The numbers of the program are IEEE 754 binary64 values. \<open>Fin m e\<close> is the finite value
  \<open>m * 2 ^ e\<close>, written as the format stores it: \<open>2^52 \<le> |m| < 2^53\<close> and
  \<open>-1074 \<le> e \<le> 971\<close> for a normal number, \<open>|m| < 2^52\<close> and \<open>e = -1074\<close> for a
  subnormal one or \<open>+0\<close>. \<open>NZero\<close> is \<open>-0\<close>. Every operation returns the exact result
  rounded to the nearest value, ties to even (\<open>round_q neg a b e\<close> rounds
  \<open>\<plusminus> (a / b) * 2 ^ e\<close>, for \<open>a, b > 0\<close>), with the special cases of the standard.
\<close>

fun bitlen :: "nat \<Rightarrow> nat" where
  "bitlen n = (if n = 0 then 0 else Suc (bitlen (n div 2)))"

declare bitlen.simps [simp del]

datatype double = Fin int int | NZero | PInf | NInf | NaN

definition mk_zero :: "bool \<Rightarrow> double" where
  "mk_zero neg = (if neg then NZero else Fin 0 (- 1074))"

definition mk_inf :: "bool \<Rightarrow> double" where
  "mk_inf neg = (if neg then NInf else PInf)"

definition ge_pow2 :: "nat \<Rightarrow> nat \<Rightarrow> int \<Rightarrow> bool" where
  "ge_pow2 a b d = (if 0 \<le> d then b * 2 ^ nat d \<le> a else b \<le> a * 2 ^ nat (- d))"

definition floor_log2 :: "nat \<Rightarrow> nat \<Rightarrow> int" where
  "floor_log2 a b =
     (let d = int (bitlen a) - int (bitlen b) in if ge_pow2 a b d then d else d - 1)"

definition rne :: "nat \<Rightarrow> nat \<Rightarrow> nat" where
  "rne num den =
     (let q = num div den; r = num mod den
      in if den < 2 * r \<or> (2 * r = den \<and> odd q) then q + 1 else q)"

definition finish :: "bool \<Rightarrow> nat \<Rightarrow> int \<Rightarrow> double" where
  "finish neg m ex =
     (if 971 < ex then mk_inf neg
      else if m = 0 then mk_zero neg
      else Fin (if neg then - int m else int m) ex)"

definition pack :: "bool \<Rightarrow> nat \<Rightarrow> int \<Rightarrow> double" where
  "pack neg q eq = (if q = 2 ^ 53 then finish neg (2 ^ 52) (eq + 1) else finish neg q eq)"

definition round_at :: "bool \<Rightarrow> nat \<Rightarrow> nat \<Rightarrow> int \<Rightarrow> int \<Rightarrow> double" where
  "round_at neg a b e eq =
     (if eq \<le> e then pack neg (rne (a * 2 ^ nat (e - eq)) b) eq
      else pack neg (rne a (b * 2 ^ nat (eq - e))) eq)"

definition round_q :: "bool \<Rightarrow> nat \<Rightarrow> nat \<Rightarrow> int \<Rightarrow> double" where
  "round_q neg a b e = round_at neg a b e (max (e + floor_log2 a b - 52) (- 1074))"

fun is_nan :: "double \<Rightarrow> bool" where
  "is_nan NaN = True"
| "is_nan _ = False"

fun is_inf :: "double \<Rightarrow> bool" where
  "is_inf PInf = True"
| "is_inf NInf = True"
| "is_inf _ = False"

fun is_zero :: "double \<Rightarrow> bool" where
  "is_zero (Fin m e) = (m = 0)"
| "is_zero NZero = True"
| "is_zero _ = False"

fun sign :: "double \<Rightarrow> bool" where
  "sign (Fin m e) = (m < 0)"
| "sign NZero = True"
| "sign NInf = True"
| "sign _ = False"

fun mant :: "double \<Rightarrow> int" where
  "mant (Fin m e) = m"
| "mant _ = 0"

fun expo :: "double \<Rightarrow> int" where
  "expo (Fin m e) = e"
| "expo _ = 0"

definition fadd :: "double \<Rightarrow> double \<Rightarrow> double" where
  "fadd x y =
     (if is_nan x \<or> is_nan y then NaN
      else if is_inf x \<and> is_inf y then (if sign x = sign y then x else NaN)
      else if is_inf x then x
      else if is_inf y then y
      else if is_zero y then (if is_zero x then mk_zero (sign x \<and> sign y) else x)
      else if is_zero x then y
      else
        (let e = min (expo x) (expo y);
             m = mant x * 2 ^ nat (expo x - e) + mant y * 2 ^ nat (expo y - e)
         in if m = 0 then mk_zero False else round_q (m < 0) (nat \<bar>m\<bar>) 1 e))"

definition fmul :: "double \<Rightarrow> double \<Rightarrow> double" where
  "fmul x y =
     (if is_nan x \<or> is_nan y then NaN
      else if (is_inf x \<and> is_zero y) \<or> (is_zero x \<and> is_inf y) then NaN
      else if is_inf x \<or> is_inf y then mk_inf (sign x \<noteq> sign y)
      else if is_zero x \<or> is_zero y then mk_zero (sign x \<noteq> sign y)
      else round_q (sign x \<noteq> sign y) (nat \<bar>mant x\<bar> * nat \<bar>mant y\<bar>) 1 (expo x + expo y))"

definition fdiv :: "double \<Rightarrow> double \<Rightarrow> double" where
  "fdiv x y =
     (if is_nan x \<or> is_nan y then NaN
      else if (is_inf x \<and> is_inf y) \<or> (is_zero x \<and> is_zero y) then NaN
      else if is_inf x \<or> is_zero y then mk_inf (sign x \<noteq> sign y)
      else if is_zero x \<or> is_inf y then mk_zero (sign x \<noteq> sign y)
      else round_q (sign x \<noteq> sign y) (nat \<bar>mant x\<bar>) (nat \<bar>mant y\<bar>) (expo x - expo y))"

fun fneg :: "double \<Rightarrow> double" where
  "fneg (Fin m e) = (if m = 0 then NZero else Fin (- m) e)"
| "fneg NZero = Fin 0 (- 1074)"
| "fneg PInf = NInf"
| "fneg NInf = PInf"
| "fneg NaN = NaN"

fun fabs :: "double \<Rightarrow> double" where
  "fabs (Fin m e) = Fin \<bar>m\<bar> e"
| "fabs NZero = Fin 0 (- 1074)"
| "fabs PInf = PInf"
| "fabs NInf = PInf"
| "fabs NaN = NaN"

definition scaled :: "double \<Rightarrow> int \<Rightarrow> int" where
  "scaled x e = mant x * 2 ^ nat (expo x - e)"

definition fless :: "double \<Rightarrow> double \<Rightarrow> bool" where
  "fless x y =
     (if is_nan x \<or> is_nan y then False
      else if x = NInf then y \<noteq> NInf
      else if y = PInf then x \<noteq> PInf
      else if x = PInf \<or> y = NInf then False
      else (let e = min (expo x) (expo y) in scaled x e < scaled y e))"

definition fle :: "double \<Rightarrow> double \<Rightarrow> bool" where
  "fle x y =
     (if is_nan x \<or> is_nan y then False
      else if x = NInf \<or> y = PInf then True
      else if x = PInf \<or> y = NInf then False
      else (let e = min (expo x) (expo y) in scaled x e \<le> scaled y e))"

instantiation double :: "{zero,one,plus,minus,uminus,times,inverse,abs,ord,power}"
begin

definition zero_double :: double where "zero_double = Fin 0 (- 1074)"
definition one_double :: double where "one_double = Fin (2 ^ 52) (- 52)"
definition plus_double :: "double \<Rightarrow> double \<Rightarrow> double" where "plus_double = fadd"
definition uminus_double :: "double \<Rightarrow> double" where "uminus_double = fneg"
definition minus_double :: "double \<Rightarrow> double \<Rightarrow> double" where "minus_double x y = fadd x (fneg y)"
definition times_double :: "double \<Rightarrow> double \<Rightarrow> double" where "times_double = fmul"
definition divide_double :: "double \<Rightarrow> double \<Rightarrow> double" where "divide_double = fdiv"
definition inverse_double :: "double \<Rightarrow> double" where "inverse_double x = fdiv (Fin (2 ^ 52) (- 52)) x"
definition abs_double :: "double \<Rightarrow> double" where "abs_double = fabs"
definition less_double :: "double \<Rightarrow> double \<Rightarrow> bool" where "less_double = fless"
definition less_eq_double :: "double \<Rightarrow> double \<Rightarrow> bool" where "less_eq_double = fle"

instance ..

end

section \<open>Helpers of \<open>js/app.js\<close>\<close>


definition normalizeVector :: "'a::{zero,plus,minus,uminus,inverse,abs,ord,power} list \<Rightarrow> 'a list" where
  "normalizeVector v =
     (let s = foldl (+) 0 v
      in if s \<le> 0 then map (\<lambda>_. 0) v else map (\<lambda>x. x / s) v)"

text \<open>
  \<open>multRowVecMat\<close>: the outer loop assigns \<open>r[j]\<close> once for each \<open>j < n\<close>, the inner loop
  adds \<open>p[k]*P[k][j]\<close> to \<open>sum\<close> for \<open>k = 0, \<dots>, n-1\<close> in this order, with
  \<open>n = P.length\<close>.
\<close>

definition multRowVecMat :: "'a::{zero,plus,minus,uminus,inverse,abs,ord,power} list \<Rightarrow> 'a list list \<Rightarrow> 'a list" where
  "multRowVecMat p P =
     (let n = length P
      in map (\<lambda>j. foldl (\<lambda>sum k. sum + idx p k * idx (P ! k) j) 0 [0..<n]) [0..<n])"

definition l1 :: "'a::{zero,plus,minus,uminus,inverse,abs,ord,power} list \<Rightarrow> 'a list \<Rightarrow> 'a" where
  "l1 a b = foldl (\<lambda>s i. s + \<bar>idx a i - idx b i\<bar>) 0 [0..<length a]"

text \<open>\<open>isRowStochastic(P, tol=1e-9)\<close>: the first failing row returns false.\<close>

primrec isRowStochastic_tol ::
  "'a::{zero,plus,minus,uminus,inverse,abs,ord,power} list list \<Rightarrow> 'a \<Rightarrow> bool" where
  "isRowStochastic_tol [] tol = True"
| "isRowStochastic_tol (row # rest) tol =
     (if list_ex (\<lambda>x. x < - (1 / ten ^ 12)) row then False
      else let s = foldl (+) 0 row
           in if \<bar>s - 1\<bar> > tol then False else isRowStochastic_tol rest tol)"

definition isRowStochastic ::
  "'a::{zero,plus,minus,uminus,inverse,abs,ord,power} list list \<Rightarrow> bool" where
  "isRowStochastic P = isRowStochastic_tol P (1 / ten ^ 9)"

text \<open>
  \<open>absorbingStates(P, tol=1e-12)\<close>: the inner loop leaves \<open>isAbs\<close> true exactly when no
  \<open>j < n\<close> has \<open>Math.abs(P[i][j] - expected) > tol\<close>; the indices \<open>i\<close> with \<open>isAbs\<close> are
  pushed in increasing order.
\<close>

definition isAbs :: "'a::{zero,plus,minus,uminus,inverse,abs,ord,power} list list \<Rightarrow> 'a \<Rightarrow> nat \<Rightarrow> bool" where
  "isAbs P tol i =
     list_all (\<lambda>j. \<not> \<bar>idx (P ! i) j - (if i = j then 1 else 0)\<bar> > tol) [0..<length P]"

definition absorbingStates_tol ::
  "'a::{zero,plus,minus,uminus,inverse,abs,ord,power} list list \<Rightarrow> 'a \<Rightarrow> nat list" where
  "absorbingStates_tol P tol = filter (isAbs P tol) [0..<length P]"

definition absorbingStates ::
  "'a::{zero,plus,minus,uminus,inverse,abs,ord,power} list list \<Rightarrow> nat list" where
  "absorbingStates P = absorbingStates_tol P (1 / ten ^ 12)"

text \<open>
  \<open>stationaryDistribution(P, tol=1e-10, maxIter=20000)\<close>: \<open>power_loop\<close> is the
  \<open>for\<close> loop, entered with \<open>iter = 0\<close> and \<open>pi = Array(n).fill(1/n)\<close> (the variable \<open>pi\<close> is \<open>pivec\<close> here).
\<close>

function power_loop ::
  "'a::{zero,plus,minus,uminus,inverse,abs,ord,power} list list \<Rightarrow> 'a \<Rightarrow> nat \<Rightarrow> nat \<Rightarrow> 'a list \<Rightarrow> 'a list"
  where
  "power_loop P tol maxIter iter pivec =
     (if iter < maxIter then
        (let next = multRowVecMat pivec P
         in if l1 next pivec < tol then next
            else power_loop P tol maxIter (iter + 1) next)
      else pivec)"
  by pat_completeness auto
termination
  by (relation "measure (\<lambda>(P, tol, maxIter, iter, pivec). maxIter - iter)") auto

declare power_loop.simps [simp del]

definition stationaryDistribution_with ::
  "'a::{zero,plus,minus,uminus,inverse,abs,ord,power} list list \<Rightarrow> 'a \<Rightarrow> nat \<Rightarrow> 'a list" where
  "stationaryDistribution_with P tol maxIter =
     (let n = length P
      in power_loop P tol maxIter 0 (replicate n (1 / num_of_nat n)))"

definition stationaryDistribution ::
  "'a::{zero,plus,minus,uminus,inverse,abs,ord,power} list list \<Rightarrow> 'a list" where
  "stationaryDistribution P = stationaryDistribution_with P (1 / ten ^ 10) 20000"

section \<open>The application state\<close>

text \<open>
  The global \<open>state\<close> object. \<open>state.p\<close> is assigned by \<open>resetSim\<close> when \<open>main\<close> runs,
  before any handler is wired, so it is a vector in every state a handler sees.
  \<open>state.chart\<close> and the document's tables and graph are renderings and are not part of
  the model: \<open>buildStatesInputs\<close>, \<open>updateMatrixHeaders\<close>, \<open>updateGraph\<close>,
  \<open>rebuildChart\<close> and the chart updates assign none of the fields below, and every
  handler calls them after its own assignments to these fields. They are taken to return
  normally inside \<open>stepOnce\<close>, as they do when \<open>P\<close> and \<open>p\<close> have at least as many rows
  and entries as there are labels. The text of the \<open>#analysis\<close> box is kept, as the list
  of its lines.

  A handler returns \<open>Inl e\<close> when an uncaught exception \<open>e\<close> of its own indexing aborts it;
  the model does not describe the state left behind by an aborted handler. An assignment
  \<open>xs[i] = v\<close> with \<open>i > xs.length\<close> would create an array with holes; such arrays
  are outside the model (\<open>Inl SparseArray\<close>).

  \<open>addState\<close> and \<open>removeState\<close> change the number of labels, and their rendering calls
  can fail on the state they have just assigned. Their result is an \<open>outcome\<close>:
  \<open>Returns s\<close> when the handler runs to its end leaving the state \<open>s\<close>, \<open>Throws e s\<close>
  when an uncaught exception \<open>e\<close> aborts it leaving the state \<open>s\<close> behind, and \<open>Holes\<close>
  when an assignment would create an array with holes.
\<close>

datatype error = TypeError | SparseArray

datatype 'a line = Toast string string | StationaryLine "'a list" 'a

record 'a state =
  labels :: "string list"
  P :: "'a list list"
  p0 :: "'a list"
  p :: "'a list"
  stepIdx :: nat
  running :: bool
  timer :: "nat option"
  analysis :: "'a line list"

text \<open>
  What a handler reads from the document: each \<open>.cell\<close> input with its \<open>data-i\<close>,
  \<open>data-j\<close> and \<open>parseFloat(value)\<close> (\<open>None\<close> when the result is not finite), each
  \<open>.init\<close> input likewise, the values of the state-name inputs, and the number
  \<open>+$("#maxSteps").value\<close>.
\<close>

record 'a dom =
  cells :: "(nat \<times> nat \<times> 'a option) list"
  inits :: "(nat \<times> 'a option) list"
  names :: "string list"
  maxSteps_value :: 'a

datatype 'a outcome = Returns "'a state" | Throws error "'a state" | Holes

text \<open>
  \<open>buildStatesInputs(); updateMatrixHeaders(); updateGraph(); rebuildChart();\<close> as
  \<open>addState\<close> and \<open>removeState\<close> call them. With \<open>n = state.labels.length\<close>,
  \<open>updateMatrixHeaders\<close> and \<open>updateGraph\<close> read \<open>state.P[i]\<close> for every \<open>i < n\<close> and
  call \<open>map\<close> on it or index it, and \<open>updateGraph\<close> calls
  \<open>state.p[i].toFixed(3)\<close> for every \<open>i < n\<close>: a missing row or a missing entry of \<open>p\<close> is
  \<open>undefined\<close> and raises a TypeError. Nothing else in these calls depends on the state
  in a way that can fail, and they assign no field of the model.
\<close>

definition render :: "'a state \<Rightarrow> 'a outcome" where
  "render s =
     (if length (P s) < length (labels s) \<or> length (p s) < length (labels s)
      then Throws TypeError s else Returns s)"

definition js_set :: "'b list \<Rightarrow> nat \<Rightarrow> 'b \<Rightarrow> error + 'b list" where
  "js_set xs i v =
     (if i < length xs then Inr (xs[i := v])
      else if i = length xs then Inr (xs @ [v])
      else Inl SparseArray)"

fun fold_err :: "('b \<Rightarrow> 's \<Rightarrow> error + 's) \<Rightarrow> 'b list \<Rightarrow> 's \<Rightarrow> error + 's" where
  "fold_err f [] s = Inr s"
| "fold_err f (x # xs) s = (case f x s of Inl e \<Rightarrow> Inl e | Inr s' \<Rightarrow> fold_err f xs s')"

fun string_of_nat :: "nat \<Rightarrow> string" where
  "string_of_nat n =
     (if n < 10 then [char_of (48 + n)]
      else string_of_nat (n div 10) @ [char_of (48 + n mod 10)])"

declare string_of_nat.simps [simp del]

definition logAnalysis :: "'a line \<Rightarrow> 'a state \<Rightarrow> 'a state" where
  "logAnalysis text s = s\<lparr>analysis := analysis s @ [text]\<rparr>"

definition toast :: "string \<Rightarrow> string \<Rightarrow> 'a state \<Rightarrow> 'a state" where
  "toast msg kind s = logAnalysis (Toast kind msg) s"

definition checked_input :: "'a::{zero,plus,minus,uminus,inverse,abs,ord,power} option \<Rightarrow> 'a" where
  "checked_input v = (case v of None \<Rightarrow> 0 | Some x \<Rightarrow> if x < 0 then 0 else x)"

definition sync_cell ::
  "nat \<times> nat \<times> 'a::{zero,plus,minus,uminus,inverse,abs,ord,power} option \<Rightarrow> 'a state \<Rightarrow> error + 'a state" where
  "sync_cell c s =
     (case c of (i, j, v) \<Rightarrow>
        if i < length (P s) then
          (case js_set (P s ! i) j (checked_input v) of
             Inl e \<Rightarrow> Inl e
           | Inr row \<Rightarrow> Inr (s\<lparr>P := (P s)[i := row]\<rparr>))
        else Inl TypeError)"

definition sync_init ::
  "nat \<times> 'a::{zero,plus,minus,uminus,inverse,abs,ord,power} option \<Rightarrow> 'a state \<Rightarrow> error + 'a state" where
  "sync_init c s =
     (case c of (j, v) \<Rightarrow>
        (case js_set (p0 s) j (checked_input v) of
           Inl e \<Rightarrow> Inl e
         | Inr v' \<Rightarrow> Inr (s\<lparr>p0 := v'\<rparr>)))"

definition sync_name :: "nat \<times> string \<Rightarrow> 'a state \<Rightarrow> error + 'a state" where
  "sync_name c s =
     (case c of (i, val) \<Rightarrow>
        (case js_set (labels s) i (if val = [] then ''State '' @ string_of_nat (i + 1) else val) of
           Inl e \<Rightarrow> Inl e
         | Inr ls \<Rightarrow> Inr (s\<lparr>labels := ls\<rparr>)))"

definition syncFromInputs ::
  "'a::{zero,plus,minus,uminus,inverse,abs,ord,power} dom \<Rightarrow> 'a state \<Rightarrow> error + 'a state" where
  "syncFromInputs d s =
     (case fold_err sync_cell (cells d) s of
        Inl e \<Rightarrow> Inl e
      | Inr s1 \<Rightarrow>
          (case fold_err sync_init (inits d) s1 of
             Inl e \<Rightarrow> Inl e
           | Inr s2 \<Rightarrow> fold_err sync_name (zip [0..<length (names d)] (names d)) s2))"

text \<open>
  \<open>addState\<close>: when \<open>state.P[n]\<close> is \<open>undefined\<close>, the assignment \<open>state.P[n][n] = 1\<close>
  raises a TypeError after the pushes to \<open>labels\<close> and \<open>P\<close> and before the push to \<open>p0\<close>.
  Otherwise all assignments are made and the rendering calls follow. \<open>state.p\<close> is not
  extended.
\<close>

definition addState ::
  "'a::{zero,plus,minus,uminus,inverse,abs,ord,power} state \<Rightarrow> 'a outcome" where
  "addState s =
     (let n = length (labels s);
          labels1 = labels s @ [''State '' @ string_of_nat (n + 1)];
          P1 = map (\<lambda>row. row @ [0]) (P s);
          P2 = P1 @ [replicate (n + 1) 0]
      in if n < length P2 then
           (case js_set (P2 ! n) n 1 of
              Inl e \<Rightarrow> Holes
            | Inr row \<Rightarrow>
                render (s\<lparr>labels := labels1, P := P2[n := row], p0 := p0 s @ [0]\<rparr>))
         else Throws TypeError (s\<lparr>labels := labels1, P := P2\<rparr>))"

text \<open>\<open>removeState\<close> returns at once when there is at most one label.\<close>

definition removeState :: "'a state \<Rightarrow> 'a outcome" where
  "removeState s =
     (if length (labels s) \<le> 1 then Returns s
      else render (s\<lparr>labels := butlast (labels s), P := map butlast (butlast (P s)),
                     p0 := butlast (p0 s)\<rparr>))"

definition resetSim ::
  "'a::{zero,plus,minus,uminus,inverse,abs,ord,power} state \<Rightarrow> 'a state" where
  "resetSim s = s\<lparr>stepIdx := 0, p := normalizeVector (p0 s), analysis := []\<rparr>"

definition loadPreset ::
  "string \<Rightarrow> 'a::{zero,plus,minus,uminus,inverse,abs,ord,power} state \<Rightarrow> 'a state" where
  "loadPreset which s =
     resetSim
       (if which = ''weather'' then
          s\<lparr>labels := [''Sunny'', ''Rainy''],
            P := [[dec 8 1, dec 2 1], [dec 4 1, dec 6 1]],
            p0 := [1, 0]\<rparr>
        else if which = ''web'' then
          s\<lparr>labels := [''Home'', ''Product'', ''Checkout''],
            P := [[dec 70 2, dec 25 2, dec 5 2],
                  [dec 10 2, dec 75 2, dec 15 2],
                  [dec 5 2, dec 10 2, dec 85 2]],
            p0 := [1, 0, 0]\<rparr>
        else if which = ''absorbing'' then
          s\<lparr>labels := [''Play'', ''Win'', ''Lose''],
            P := [[dec 85 2, dec 10 2, dec 5 2], [0, 1, 0], [0, 0, 1]],
            p0 := [1, 0, 0]\<rparr>
        else if which = ''custom'' then
          s\<lparr>labels := [''State 1'', ''State 2'', ''State 3''],
            P := [[1, 0, 0], [0, 1, 0], [0, 0, 1]],
            p0 := [1, 0, 0]\<rparr>
        else s)"

definition invalid_matrix_msg :: string where
  "invalid_matrix_msg = ''Matrix rows must each sum to 1. Try Normalize Rows.''"

definition stepOnce ::
  "'a::{zero,plus,minus,uminus,inverse,abs,ord,power} dom \<Rightarrow> 'a state \<Rightarrow> error + 'a state" where
  "stepOnce d s =
     (case syncFromInputs d s of
        Inl e \<Rightarrow> Inl e
      | Inr s1 \<Rightarrow>
          if \<not> isRowStochastic (P s1) then Inr (toast invalid_matrix_msg ''warn'' s1)
          else Inr (s1\<lparr>stepIdx := stepIdx s1 + 1, p := multRowVecMat (p s1) (P s1)\<rparr>))"

definition onComputeStationary ::
  "'a::{zero,plus,minus,uminus,inverse,abs,ord,power} dom \<Rightarrow> 'a state \<Rightarrow> error + 'a state" where
  "onComputeStationary d s =
     (case syncFromInputs d s of
        Inl e \<Rightarrow> Inl e
      | Inr s1 \<Rightarrow>
          if \<not> isRowStochastic (P s1) then Inr (toast invalid_matrix_msg ''warn'' s1)
          else
            (let pivec = stationaryDistribution (P s1);
                 err = l1 (multRowVecMat pivec (P s1)) pivec
             in Inr (logAnalysis (StationaryLine pivec err) s1)))"

section \<open>The run loop\<close>

text \<open>
  The browser's timers: \<open>pending\<close> holds the handle of every timeout that is scheduled and
  has not fired or been cleared, with the \<open>maxSteps\<close> captured by its \<open>tick\<close> closure.
  \<open>setTimeout\<close> returns a fresh positive handle.
\<close>

record 'a world =
  st :: "'a state"
  pending :: "(nat \<times> 'a) list"
  created :: nat

definition clearTimeout :: "nat \<Rightarrow> 'a world \<Rightarrow> 'a world" where
  "clearTimeout h w = w\<lparr>pending := filter (\<lambda>t. fst t \<noteq> h) (pending w)\<rparr>"

definition pause :: "'a world \<Rightarrow> 'a world" where
  "pause w =
     (let w1 = w\<lparr>st := (st w)\<lparr>running := False\<rparr>\<rparr>
      in case timer (st w1) of
           None \<Rightarrow> w1
         | Some h \<Rightarrow>
             if h \<noteq> 0 then (clearTimeout h w1)\<lparr>st := (st w1)\<lparr>timer := None\<rparr>\<rparr> else w1)"

definition tick ::
  "'a::{zero,plus,minus,uminus,inverse,abs,ord,power} \<Rightarrow> 'a dom \<Rightarrow> 'a world \<Rightarrow> error + 'a world" where
  "tick maxSteps d w =
     (if \<not> running (st w) then Inr w
      else
        (case stepOnce d (st w) of
           Inl e \<Rightarrow> Inl e
         | Inr s1 \<Rightarrow>
             if maxSteps \<le> num_of_nat (stepIdx s1) then Inr (pause (w\<lparr>st := s1\<rparr>))
             else
               (let h = Suc (created w)
                in Inr (w\<lparr>st := s1\<lparr>timer := Some h\<rparr>,
                          pending := pending w @ [(h, maxSteps)], created := h\<rparr>))))"

text \<open>
  \<open>Math.max(1, Math.min(2000, v || 200))\<close>, where \<open>v || 200\<close> is \<open>200\<close> when \<open>v\<close> is
  \<open>0\<close> or NaN, so neither \<open>Math.min\<close> nor \<open>Math.max\<close> sees a NaN.
\<close>

definition clamp_maxSteps :: "'a::{zero,plus,minus,uminus,inverse,abs,ord,power} \<Rightarrow> 'a" where
  "clamp_maxSteps v =
     (let v1 = (if v < 0 \<or> 0 < v then v else (1 + 1) * ten ^ 2);
          v2 = (if v1 < (1 + 1) * ten ^ 3 then v1 else (1 + 1) * ten ^ 3)
      in if 1 < v2 then v2 else 1)"

definition run ::
  "'a::{zero,plus,minus,uminus,inverse,abs,ord,power} dom \<Rightarrow> 'a world \<Rightarrow> error + 'a world" where
  "run d w =
     (if running (st w) then Inr w
      else tick (clamp_maxSteps (maxSteps_value d)) d (w\<lparr>st := (st w)\<lparr>running := True\<rparr>\<rparr>))"

text \<open>
  The events of the run loop: a click on Run or Pause, a scheduled timeout firing (only a
  pending one can), and the tab becoming hidden.
\<close>

datatype 'a event = ClickRun "'a dom" | ClickPause | TimerFires nat "'a dom" | TabHidden

definition handle_event ::
  "'a::{zero,plus,minus,uminus,inverse,abs,ord,power} event \<Rightarrow> 'a world \<Rightarrow> error + 'a world" where
  "handle_event ev w =
     (case ev of
        ClickRun d \<Rightarrow> run d w
      | ClickPause \<Rightarrow> Inr (pause w)
      | TimerFires h d \<Rightarrow>
          (case map_of (pending w) h of
             None \<Rightarrow> Inr w
           | Some maxSteps \<Rightarrow> tick maxSteps d (clearTimeout h w))
      | TabHidden \<Rightarrow> if running (st w) then Inr (pause w) else Inr w)"

definition run_events ::
  "'a::{zero,plus,minus,uminus,inverse,abs,ord,power} event list \<Rightarrow> 'a world \<Rightarrow> error + 'a world" where
  "run_events evs w = fold_err handle_event evs w"

section \<open>Concrete configurations\<close>

text \<open>
  The state after \<open>loadPreset("weather")\<close>, and the document's inputs as
  \<open>updateMatrixHeaders\<close> renders them for it (\<open>weather_dom\<close>) or after the user has typed
  the matrix \<open>[[0.5,0.6],[0.4,0.6]]\<close> (\<open>invalid_dom\<close>); \<open>maxSteps\<close> reads 2000.
\<close>

definition blank :: "'a state" where
  "blank = \<lparr>labels = [], P = [], p0 = [], p = [], stepIdx = 0, running = False,
            timer = None, analysis = []\<rparr>"

definition weather :: "'a::{zero,plus,minus,uminus,inverse,abs,ord,power} state" where
  "weather = loadPreset ''weather'' blank"

definition weather_dom :: "'a::{zero,plus,minus,uminus,inverse,abs,ord,power} dom" where
  "weather_dom =
     \<lparr>cells = [(0, 0, Some (dec 8 1)), (0, 1, Some (dec 2 1)),
               (1, 0, Some (dec 4 1)), (1, 1, Some (dec 6 1))],
      inits = [(0, Some 1), (1, Some 0)],
      names = [''Sunny'', ''Rainy''],
      maxSteps_value = (1 + 1) * ten ^ 3\<rparr>"

definition invalid_dom :: "'a::{zero,plus,minus,uminus,inverse,abs,ord,power} dom" where
  "invalid_dom =
     \<lparr>cells = [(0, 0, Some (dec 5 1)), (0, 1, Some (dec 6 1)),
               (1, 0, Some (dec 4 1)), (1, 1, Some (dec 6 1))],
      inits = [(0, Some 1), (1, Some 0)],
      names = [''Sunny'', ''Rainy''],
      maxSteps_value = (1 + 1) * ten ^ 3\<rparr>"

section \<open>Predicates and notions of the specification\<close>

text \<open>\<open>same_session\<close>: two states agree on everything but the configuration
  (\<open>labels\<close>, \<open>P\<close>, \<open>p0\<close>). \<open>lock_step s n\<close>: the label list, the initial vector and
  the matrix of \<open>s\<close> have the shape of \<open>n \<ge> 1\<close> states.\<close>

definition same_session :: "'a state \<Rightarrow> 'a state \<Rightarrow> bool" where
  "same_session s s' \<longleftrightarrow>
     p s' = p s \<and> stepIdx s' = stepIdx s \<and> running s' = running s \<and> timer s' = timer s \<and>
     analysis s' = analysis s"

definition lock_step :: "'a state \<Rightarrow> nat \<Rightarrow> bool" where
  "lock_step s n \<longleftrightarrow>
     length (labels s) = n \<and> length (p0 s) = n \<and> length (P s) = n \<and>
     list_all (\<lambda>row. length row = n) (P s) \<and> 1 \<le> n"

text \<open>The iterates of the specification: \<open>power_iterate M k\<close> is the uniform vector
  propagated \<open>k\<close> times.\<close>

definition power_iterate ::
  "'a::{zero,plus,minus,uminus,inverse,abs,ord,power} list list \<Rightarrow> nat \<Rightarrow> 'a list" where
  "power_iterate M k =
     ((\<lambda>v. multRowVecMat v M) ^^ k) (replicate (length M) (1 / num_of_nat (length M)))"

text \<open>The \<open>n \<times> n\<close> identity matrix, and a world with the weather preset loaded and no
  timer scheduled. An event is \<open>quiet\<close> when it is not a click on Run.\<close>

definition identity :: "nat \<Rightarrow> 'a::{zero,plus,minus,uminus,inverse,abs,ord,power} list list" where
  "identity n = map (\<lambda>i. map (\<lambda>j. if i = j then 1 else 0) [0..<n]) [0..<n]"

definition weather_world :: "'a::{zero,plus,minus,uminus,inverse,abs,ord,power} world" where
  "weather_world = \<lparr>st = weather, pending = [], created = 0\<rparr>"

fun quiet :: "'a event \<Rightarrow> bool" where
  "quiet (ClickRun d) = False"
| "quiet ev = True"

text \<open>A state has the weather configuration when its labels, matrix and initial vector
  are those of the weather preset.\<close>

definition weather_config :: "'a::{zero,plus,minus,uminus,inverse,abs,ord,power} state \<Rightarrow> bool" where
  "weather_config s \<longleftrightarrow>
     labels s = [''Sunny'', ''Rainy''] \<and> P s = [[dec 8 1, dec 2 1], [dec 4 1, dec 6 1]] \<and>
     p0 s = [1, 0]"

text \<open>\<open>frozen s s'\<close>: the configuration, the session and the analysis box of \<open>s'\<close> are those
  of \<open>s\<close>.\<close>

definition frozen :: "'a state \<Rightarrow> 'a state \<Rightarrow> bool" where
  "frozen s s' \<longleftrightarrow>
     labels s' = labels s \<and> P s' = P s \<and> p0 s' = p0 s \<and> p s' = p s \<and>
     stepIdx s' = stepIdx s \<and> analysis s' = analysis s"

section \<open>Exact arithmetic\<close>

lemma ten_field: "(ten :: 'a::linordered_field) = 10"
  by (simp add: ten_def)

lemma num_of_nat_field: "(num_of_nat n :: 'a::linordered_field) = of_nat n"
  by (induction n) simp_all

lemma nan_field: "(nan :: 'a::linordered_field) = 0"
  by (simp add: nan_def)

lemma dec_field: "(dec a k :: 'a::linordered_field) = of_nat a / 10 ^ k"
  by (simp add: dec_def ten_field num_of_nat_field)

lemma weather_real:
  "(weather :: real state) =
     \<lparr>labels = [''Sunny'', ''Rainy''], P = [[8 / 10, 2 / 10], [4 / 10, 6 / 10]], p0 = [1, 0],
      p = [1, 0], stepIdx = 0, running = False, timer = None, analysis = []\<rparr>"
  by (simp add: weather_def loadPreset_def resetSim_def blank_def normalizeVector_def dec_field)

lemma sync_invalid_real:
  "syncFromInputs invalid_dom (weather :: real state) =
     Inr (weather\<lparr>P := [[5 / 10, 6 / 10], [4 / 10, 6 / 10]]\<rparr>)"
  by (simp add: weather_real syncFromInputs_def invalid_dom_def sync_cell_def sync_init_def
      sync_name_def js_set_def checked_input_def dec_field)

lemma sync_weather_real:
  "syncFromInputs weather_dom (weather :: real state) = Inr weather"
  by (simp add: weather_real syncFromInputs_def weather_dom_def sync_cell_def sync_init_def
      sync_name_def js_set_def checked_input_def dec_field)

section \<open>Evaluating double-precision arithmetic\<close>

lemma bitlen_0: "bitlen 0 = 0" by (simp add: bitlen.simps)
lemma bitlen_Bit0: "bitlen (numeral (num.Bit0 n)) = Suc (bitlen (numeral n))"
  by (subst bitlen.simps) simp
lemma bitlen_Bit1: "bitlen (numeral (num.Bit1 n)) = Suc (bitlen (numeral n))"
  by (subst bitlen.simps) simp
lemma bitlen_Suc0: "bitlen (Suc 0) = Suc 0"
  by (simp add: bitlen.simps [of "Suc 0"] bitlen.simps [of 0])
lemma bitlen_One: "bitlen (numeral num.One) = Suc 0"
  using bitlen_Suc0 by simp
lemma bitlen_1: "bitlen 1 = Suc 0"
  using bitlen_Suc0 by simp

lemmas dbl_eval = zero_double_def one_double_def plus_double_def uminus_double_def
  minus_double_def times_double_def divide_double_def inverse_double_def abs_double_def
  less_double_def less_eq_double_def fadd_def fmul_def fdiv_def fless_def fle_def scaled_def
  round_q_def round_at_def pack_def finish_def rne_def floor_log2_def ge_pow2_def
  mk_zero_def mk_inf_def Let_def
  bitlen_0 bitlen_Bit0 bitlen_Bit1 bitlen_One bitlen_1 bitlen_Suc0

lemma power_unfold:
  fixes x :: "'a::power"
  shows "x ^ 1 = x * 1"
    and "x ^ 2 = x * (x * 1)"
    and "x ^ 3 = x * (x * (x * 1))"
    and "x ^ 9 = x * (x * (x * (x * (x * (x * (x * (x * (x * 1))))))))"
    and "x ^ 10 = x * (x * (x * (x * (x * (x * (x * (x * (x * (x * 1)))))))))"
    and "x ^ 12 = x * (x * (x * (x * (x * (x * (x * (x * (x * (x * (x * (x * 1)))))))))))"
  by (simp_all add: eval_nat_numeral)

lemma num_of_nat_unfold:
  shows "(num_of_nat 3 :: 'a::{zero,one,plus}) = 0 + 1 + 1 + 1"
    and "(num_of_nat 2 :: 'a::{zero,one,plus}) = 0 + 1 + 1"
    and "(num_of_nat 4 :: 'a::{zero,one,plus}) = 0 + 1 + 1 + 1 + 1"
    and "(num_of_nat 5 :: 'a::{zero,one,plus}) = 0 + 1 + 1 + 1 + 1 + 1"
    and "(num_of_nat 6 :: 'a::{zero,one,plus}) = 0 + 1 + 1 + 1 + 1 + 1 + 1"
    and "(num_of_nat 8 :: 'a::{zero,one,plus}) = 0 + 1 + 1 + 1 + 1 + 1 + 1 + 1 + 1"
    and "(num_of_nat 10 :: 'a::{zero,one,plus}) = 0 + 1 + 1 + 1 + 1 + 1 + 1 + 1 + 1 + 1 + 1"
    and "(num_of_nat 28 :: 'a::{zero,one,plus}) = 0 + 1 + 1 + 1 + 1 + 1 + 1 + 1 + 1 + 1 + 1 + 1 + 1 + 1 + 1 + 1 + 1 + 1 + 1 + 1 + 1 + 1 + 1 + 1 + 1 + 1 + 1 + 1 + 1"
    and "(num_of_nat 72 :: 'a::{zero,one,plus}) = 0 + 1 + 1 + 1 + 1 + 1 + 1 + 1 + 1 + 1 + 1 + 1 + 1 + 1 + 1 + 1 + 1 + 1 + 1 + 1 + 1 + 1 + 1 + 1 + 1 + 1 + 1 + 1 + 1 + 1 + 1 + 1 + 1 + 1 + 1 + 1 + 1 + 1 + 1 + 1 + 1 + 1 + 1 + 1 + 1 + 1 + 1 + 1 + 1 + 1 + 1 + 1 + 1 + 1 + 1 + 1 + 1 + 1 + 1 + 1 + 1 + 1 + 1 + 1 + 1 + 1 + 1 + 1 + 1 + 1 + 1 + 1 + 1"
    and "(num_of_nat 85 :: 'a::{zero,one,plus}) = 0 + 1 + 1 + 1 + 1 + 1 + 1 + 1 + 1 + 1 + 1 + 1 + 1 + 1 + 1 + 1 + 1 + 1 + 1 + 1 + 1 + 1 + 1 + 1 + 1 + 1 + 1 + 1 + 1 + 1 + 1 + 1 + 1 + 1 + 1 + 1 + 1 + 1 + 1 + 1 + 1 + 1 + 1 + 1 + 1 + 1 + 1 + 1 + 1 + 1 + 1 + 1 + 1 + 1 + 1 + 1 + 1 + 1 + 1 + 1 + 1 + 1 + 1 + 1 + 1 + 1 + 1 + 1 + 1 + 1 + 1 + 1 + 1 + 1 + 1 + 1 + 1 + 1 + 1 + 1 + 1 + 1 + 1 + 1 + 1 + 1"
  by (simp_all add: eval_nat_numeral)

lemma ten_double: "(ten :: double) = Fin 5629499534213120 (- 49)"
  by (simp add: ten_def dbl_eval)

lemma tol9_double: "(1 / ten ^ 9 :: double) = Fin 4835703278458517 (- 82)"
  by (simp add: ten_double power_unfold dbl_eval)

lemma tol10_double: "(1 / ten ^ 10 :: double) = Fin 7737125245533627 (- 86)"
  by (simp add: ten_double power_unfold dbl_eval)

lemma eps12_double: "(1 / ten ^ 12 :: double) = Fin 4951760157141521 (- 92)"
  by (simp add: ten_double power_unfold dbl_eval)

lemma neg_eps12_double: "(- (1 / ten ^ 12) :: double) = Fin (- 4951760157141521) (- 92)"
  by (simp add: eps12_double uminus_double_def)

lemma dec_8_1_double: "(dec 8 1 :: double) = Fin 7205759403792794 (- 53)"
  by (simp add: dec_def ten_double power_unfold num_of_nat_unfold dbl_eval)

lemma dec_2_1_double: "(dec 2 1 :: double) = Fin 7205759403792794 (- 55)"
  by (simp add: dec_def ten_double power_unfold num_of_nat_unfold dbl_eval)

lemma dec_4_1_double: "(dec 4 1 :: double) = Fin 7205759403792794 (- 54)"
  by (simp add: dec_def ten_double power_unfold num_of_nat_unfold dbl_eval)

lemma dec_6_1_double: "(dec 6 1 :: double) = Fin 5404319552844595 (- 53)"
  by (simp add: dec_def ten_double power_unfold num_of_nat_unfold dbl_eval)

lemma dec_5_1_double: "(dec 5 1 :: double) = Fin 4503599627370496 (- 53)"
  by (simp add: dec_def ten_double power_unfold num_of_nat_unfold dbl_eval)

lemma dec_85_2_double: "(dec 85 2 :: double) = Fin 7656119366529843 (- 53)"
  by (simp add: dec_def ten_double power_unfold num_of_nat_unfold dbl_eval)

lemma dec_10_2_double: "(dec 10 2 :: double) = Fin 7205759403792794 (- 56)"
  by (simp add: dec_def ten_double power_unfold num_of_nat_unfold dbl_eval)

lemma dec_5_2_double: "(dec 5 2 :: double) = Fin 7205759403792794 (- 57)"
  by (simp add: dec_def ten_double power_unfold num_of_nat_unfold dbl_eval)

lemma dec_72_2_double: "(dec 72 2 :: double) = Fin 6485183463413514 (- 53)"
  by (simp add: dec_def ten_double power_unfold num_of_nat_unfold dbl_eval)

lemma dec_28_2_double: "(dec 28 2 :: double) = Fin 5044031582654956 (- 54)"
  by (simp add: dec_def ten_double power_unfold num_of_nat_unfold dbl_eval)

lemma two_thousand_double: "((1 + 1) * ten ^ 3 :: double) = Fin 8796093022208000 (- 42)"
  by (simp add: ten_double power_unfold dbl_eval)

lemma two_hundred_double: "((1 + 1) * ten ^ 2 :: double) = Fin 7036874417766400 (- 45)"
  by (simp add: ten_double power_unfold dbl_eval)

lemma round_q_not_nan: "\<not> is_nan (round_q neg a b e)"
  by (simp add: round_q_def round_at_def pack_def finish_def mk_inf_def mk_zero_def)

lemma fadd_not_nan:
  "\<not> is_nan x \<Longrightarrow> \<not> is_nan y \<Longrightarrow> \<not> is_inf y \<Longrightarrow> \<not> is_nan (fadd x y)"
  by (simp add: fadd_def round_q_not_nan mk_zero_def Let_def)

lemma fabs_not_nan: "\<not> is_nan x \<Longrightarrow> \<not> is_nan (fabs x)"
  by (cases x) simp_all

lemma not_less_iff_le_double:
  fixes a b :: double
  shows "\<not> is_nan a \<Longrightarrow> \<not> is_nan b \<Longrightarrow> (\<not> b < a) = (a \<le> b)"
  by (cases a; cases b)
    (simp_all add: less_double_def less_eq_double_def fless_def fle_def Let_def min.commute
      not_less)

lemma abs_diff_not_nan:
  fixes x :: double
  shows "\<not> is_nan x \<Longrightarrow> \<not> is_nan \<bar>x - (if c then 1 else 0)\<bar>"
  by (simp add: abs_double_def minus_double_def one_double_def zero_double_def
      fabs_not_nan fadd_not_nan)

lemma add_zero_sub_one:
  fixes x :: double
  shows "(x + 0) - 1 = x - 1"
  by (cases x) (simp_all add: plus_double_def minus_double_def zero_double_def one_double_def
      fadd_def mk_zero_def)

lemma zero_add_zero_double: "(0 :: double) + 0 = 0"
  by (simp add: plus_double_def zero_double_def fadd_def mk_zero_def)

lemma zero_add_one_double: "(0 :: double) + 1 = 1"
  by (simp add: plus_double_def zero_double_def one_double_def fadd_def)

lemma one_minus_one_double: "(1 :: double) - 1 = 0"
  by (simp add: minus_double_def zero_double_def one_double_def fadd_def mk_zero_def)

lemma zero_minus_zero_double: "(0 :: double) - 0 = 0"
  by (simp add: minus_double_def zero_double_def fadd_def mk_zero_def)

lemma abs_zero_double: "\<bar>0 :: double\<bar> = 0"
  by (simp add: abs_double_def zero_double_def)

lemma zero_not_below_neg_eps: "\<not> (0 :: double) < - (1 / ten ^ 12)"
  by (simp add: neg_eps12_double zero_double_def less_double_def fless_def scaled_def)

lemma one_not_below_neg_eps: "\<not> (1 :: double) < - (1 / ten ^ 12)"
  unfolding neg_eps12_double
  by (simp add: one_double_def less_double_def fless_def scaled_def)

lemma zero_not_above_tol9: "\<not> (1 / ten ^ 9 :: double) < 0"
  by (simp add: tol9_double zero_double_def less_double_def fless_def scaled_def)

lemma zero_not_above_eps12: "\<not> (1 / ten ^ 12 :: double) < 0"
  by (simp add: eps12_double zero_double_def less_double_def fless_def scaled_def)


section \<open>The row-stochastic check\<close>

lemma isRowStochastic_tol_iff:
  "isRowStochastic_tol M tol \<longleftrightarrow>
     (\<forall>row \<in> set M. \<not> (\<exists>x \<in> set row. x < - (1 / ten ^ 12)) \<and> \<not> \<bar>foldl (+) 0 row - 1\<bar> > tol)"
  by (induction M) (auto simp: list_ex_iff Let_def)

text \<open>
  C5. \<open>isRowStochastic(P, tol)\<close> returns false if and only if some row has an entry below
  \<open>-1e-12\<close> or a sum \<open>s\<close> (as \<open>reduce\<close> computes it) with \<open>|s - 1| > tol\<close>, and
  \<open>isRowStochastic(P)\<close> is the call with the default \<open>tol = 1e-9\<close>, so it returns false if
  and only if some row has an entry below \<open>-1e-12\<close> or a sum \<open>s\<close> with
  \<open>|s - 1| > 1e-9\<close>; this holds whatever the arithmetic. The predicate is a function of
  \<open>P\<close> and \<open>tol\<close> alone and returns nothing but the boolean, so a second call on the same
  input gives the same result.
\<close>

theorem isRowStochastic_false_iff:
  "isRowStochastic M = isRowStochastic_tol M (1 / ten ^ 9) \<and>
   ((isRowStochastic_tol M tol = False) \<longleftrightarrow>
      (\<exists>row \<in> set M. (\<exists>x \<in> set row. x < - (1 / ten ^ 12)) \<or> \<bar>foldl (+) 0 row - 1\<bar> > tol)) \<and>
   ((isRowStochastic M = False) \<longleftrightarrow>
      (\<exists>row \<in> set M. (\<exists>x \<in> set row. x < - (1 / ten ^ 12)) \<or>
         \<bar>foldl (+) 0 row - 1\<bar> > 1 / ten ^ 9))"
  by (simp add: isRowStochastic_def isRowStochastic_tol_iff)

theorem isRowStochastic_false_iff_witness:
  "isRowStochastic [[0.5, 0.6], [0.4, 0.6 :: real]] = False \<and>
   isRowStochastic [[0.8, 0.2], [0.4, 0.6 :: real]] = True \<and>
   isRowStochastic [[0.8, 0.2], [0.4, 0.6 + 1 / 10 ^ 8 :: real]] = False \<and>
   isRowStochastic_tol [[0.8, 0.2], [0.4, 0.6 + 1 / 10 ^ 8 :: real]] (1 / 10 ^ 7) = True \<and>
   isRowStochastic [[1 + 1 / 10 ^ 11, - (1 / 10 ^ 11)], [0, 1 :: real]] = False"
proof -
  note a = isRowStochastic_false_iff [of "[[0.5, 0.6], [0.4, 0.6 :: real]]" 0, THEN conjunct2,
      THEN conjunct2]
  note b = isRowStochastic_false_iff [of "[[0.8, 0.2], [0.4, 0.6 :: real]]" 0, THEN conjunct2,
      THEN conjunct2]
  note c = isRowStochastic_false_iff [of "[[0.8, 0.2], [0.4, 0.6 + 1 / 10 ^ 8 :: real]]"
      "1 / 10 ^ 7"]
  note d = isRowStochastic_false_iff [of "[[1 + 1 / 10 ^ 11, - (1 / 10 ^ 11)], [0, 1 :: real]]" 0,
      THEN conjunct2, THEN conjunct2]
  have "isRowStochastic [[0.5, 0.6], [0.4, 0.6 :: real]] = False"
    using a by (simp add: ten_field)
  moreover have "isRowStochastic [[0.8, 0.2], [0.4, 0.6 :: real]] = True"
    using b by (simp add: ten_field)
  moreover have "isRowStochastic [[0.8, 0.2], [0.4, 0.6 + 1 / 10 ^ 8 :: real]] = False"
    using c [THEN conjunct2, THEN conjunct2] by (simp add: ten_field)
  moreover have
    "isRowStochastic_tol [[0.8, 0.2], [0.4, 0.6 + 1 / 10 ^ 8 :: real]] (1 / 10 ^ 7) = True"
    using c [THEN conjunct2, THEN conjunct1] by (simp add: ten_field)
  moreover have "isRowStochastic [[1 + 1 / 10 ^ 11, - (1 / 10 ^ 11)], [0, 1 :: real]] = False"
    using d by (simp add: ten_field)
  ultimately show ?thesis by blast
qed

section \<open>Synchronising with the inputs leaves the session alone\<close>

lemma same_session_refl: "same_session s s"
  by (simp add: same_session_def)

lemma same_session_trans: "same_session s s1 \<Longrightarrow> same_session s1 s2 \<Longrightarrow> same_session s s2"
  by (simp add: same_session_def)

lemma fold_err_same_session:
  assumes step: "\<And>x s s'. f x s = Inr s' \<Longrightarrow> same_session s s'"
  shows "fold_err f xs s = Inr s' \<Longrightarrow> same_session s s'"
proof (induction xs arbitrary: s)
  case Nil
  then show ?case by (simp add: same_session_refl)
next
  case (Cons x xs)
  then obtain s1 where s1: "f x s = Inr s1" and rest: "fold_err f xs s1 = Inr s'"
    by (auto split: sum.splits)
  from step [OF s1] Cons.IH [OF rest] show ?case
    by (rule same_session_trans)
qed

lemma sync_cell_same_session: "sync_cell c s = Inr s' \<Longrightarrow> same_session s s'"
  by (auto simp: sync_cell_def same_session_def split: prod.splits if_splits sum.splits)

lemma sync_init_same_session: "sync_init c s = Inr s' \<Longrightarrow> same_session s s'"
  by (auto simp: sync_init_def same_session_def split: prod.splits if_splits sum.splits)

lemma sync_name_same_session: "sync_name c s = Inr s' \<Longrightarrow> same_session s s'"
  by (auto simp: sync_name_def same_session_def split: prod.splits if_splits sum.splits)

lemma syncFromInputs_same_session:
  assumes "syncFromInputs d s = Inr s'"
  shows "same_session s s'"
proof -
  from assms obtain s1 s2 where
    a: "fold_err sync_cell (cells d) s = Inr s1" and
    b: "fold_err sync_init (inits d) s1 = Inr s2" and
    c: "fold_err sync_name (zip [0..<length (names d)] (names d)) s2 = Inr s'"
    by (auto simp: syncFromInputs_def split: sum.splits)
  have "same_session s s1"
    using a by (rule fold_err_same_session [rotated]) (rule sync_cell_same_session)
  moreover have "same_session s1 s2"
    using b by (rule fold_err_same_session [rotated]) (rule sync_init_same_session)
  moreover have "same_session s2 s'"
    using c by (rule fold_err_same_session [rotated]) (rule sync_name_same_session)
  ultimately show ?thesis
    by (blast intro: same_session_trans)
qed


section \<open>An invalid matrix\<close>

text \<open>
  C2. When the matrix that \<open>stepOnce\<close> and \<open>onComputeStationary\<close> check (the state's
  matrix once \<open>syncFromInputs\<close> has read the inputs) fails \<open>isRowStochastic\<close>, both
  handlers append the warning to the analysis box and return, and the session's \<open>p\<close> and
  \<open>stepIdx\<close> are the ones before the call. This holds whatever the arithmetic.
\<close>

theorem invalid_matrix_no_step:
  assumes "syncFromInputs d s = Inr s1" and "\<not> isRowStochastic (P s1)"
  shows "\<exists>s2. stepOnce d s = Inr s2 \<and> onComputeStationary d s = Inr s2 \<and>
           p s2 = p s \<and> stepIdx s2 = stepIdx s \<and>
           analysis s2 = analysis s @ [Toast ''warn'' invalid_matrix_msg]"
  using assms syncFromInputs_same_session [OF assms(1)]
  by (simp add: stepOnce_def onComputeStationary_def toast_def logAnalysis_def same_session_def)

theorem invalid_matrix_no_step_witness:
  "stepOnce invalid_dom (weather :: real state) =
     Inr (weather\<lparr>P := [[5 / 10, 6 / 10], [4 / 10, 6 / 10]],
                  analysis := [Toast ''warn'' invalid_matrix_msg]\<rparr>) \<and>
   onComputeStationary invalid_dom (weather :: real state) =
     Inr (weather\<lparr>P := [[5 / 10, 6 / 10], [4 / 10, 6 / 10]],
                  analysis := [Toast ''warn'' invalid_matrix_msg]\<rparr>)"
proof -
  let ?s1 = "(weather :: real state)\<lparr>P := [[5 / 10, 6 / 10], [4 / 10, 6 / 10]]\<rparr>"
  have bad: "\<not> isRowStochastic (P ?s1)"
    by (simp add: isRowStochastic_def ten_field)
  have an: "analysis (weather :: real state) = []"
    by (simp add: weather_real)
  from invalid_matrix_no_step [OF sync_invalid_real bad]
  obtain s2 where s2: "stepOnce invalid_dom (weather :: real state) = Inr s2"
    "onComputeStationary invalid_dom (weather :: real state) = Inr s2"
    by blast
  have "stepOnce invalid_dom (weather :: real state) =
      Inr (?s1\<lparr>analysis := [Toast ''warn'' invalid_matrix_msg]\<rparr>)"
    using bad by (simp add: stepOnce_def sync_invalid_real toast_def logAnalysis_def an)
  with s2 show ?thesis by simp
qed

section \<open>Adding and removing a state\<close>

lemma addState_lock_step:
  assumes "length (P s) = length (labels s)"
  shows "addState s =
     render (s\<lparr>labels := labels s @ [''State '' @ string_of_nat (length (labels s) + 1)],
               P := map (\<lambda>row. row @ [0]) (P s) @ [replicate (length (labels s)) 0 @ [1]],
               p0 := p0 s @ [0]\<rparr>)"
proof -
  let ?n = "length (labels s)"
  let ?P2 = "map (\<lambda>row. row @ [0]) (P s) @ [replicate (?n + 1) 0]"
  have nth: "?P2 ! ?n = replicate (?n + 1) 0"
    using assms by (simp add: nth_append)
  have "replicate (?n + 1) (0::'a) = replicate ?n 0 @ [0]"
    by (simp add: replicate_append_same)
  then have upd: "(replicate (?n + 1) (0::'a))[?n := 1] = replicate ?n 0 @ [1]"
    using list_update_length [of "replicate ?n (0::'a)" 0 "[]" 1] by simp
  have upd2: "?P2[?n := replicate ?n 0 @ [1]] =
      map (\<lambda>row. row @ [0]) (P s) @ [replicate ?n 0 @ [1]]"
    using assms by (simp add: list_update_append)
  show ?thesis
    unfolding addState_def Let_def nth js_set_def
    using assms upd upd2 by simp
qed

lemma render_outcome:
  assumes "length (P s') = length (labels s')"
  shows "render s' =
     (if length (labels s') \<le> length (p s') then Returns s' else Throws TypeError s')"
  using assms by (auto simp: render_def)

text \<open>
  C8. In a state whose label list, initial vector and matrix are in lock-step with
  \<open>n \<ge> 1\<close> states, \<open>addState\<close> makes all its assignments and leaves a state in lock-step
  with \<open>n + 1\<close> states: every old row gets a \<open>0\<close> appended, the new last row is zero but
  for a \<open>1\<close> on the diagonal, and \<open>0\<close> is appended to the initial vector. The handler
  then returns when \<open>state.p\<close> has more than \<open>n\<close> entries; when it has at most \<open>n\<close> (as
  after a reset or a step) its \<open>updateGraph\<close> call raises a TypeError, after the
  assignments, which stay. \<open>removeState\<close> returns at once and changes nothing when
  \<open>n = 1\<close>, and otherwise drops the last label, row, column and vector entry, leaving a
  state in lock-step with \<open>n - 1 \<ge> 1\<close> states (it returns unless \<open>state.p\<close> has fewer than
  \<open>n - 1\<close> entries). This holds whatever the arithmetic.
\<close>

theorem add_remove_lock_step:
  assumes "lock_step s n"
  shows "(\<exists>s'. addState s = (if n < length (p s) then Returns s' else Throws TypeError s') \<and>
            lock_step s' (n + 1) \<and>
            P s' = map (\<lambda>row. row @ [0]) (P s) @ [replicate n 0 @ [1]] \<and>
            p0 s' = p0 s @ [0] \<and> butlast (labels s') = labels s \<and> p s' = p s) \<and>
         (if n = 1 then removeState s = Returns s
          else (\<exists>s'. removeState s =
                   (if n - 1 \<le> length (p s) then Returns s' else Throws TypeError s') \<and>
                 lock_step s' (n - 1) \<and>
                 labels s' = butlast (labels s) \<and>
                 P s' = map butlast (butlast (P s)) \<and>
                 p0 s' = butlast (p0 s) \<and> p s' = p s))"
proof -
  from assms have len: "length (P s) = length (labels s)" and n: "length (labels s) = n"
    by (simp_all add: lock_step_def)
  let ?a = "s\<lparr>labels := labels s @ [''State '' @ string_of_nat (length (labels s) + 1)],
      P := map (\<lambda>row. row @ [0]) (P s) @ [replicate (length (labels s)) 0 @ [1]],
      p0 := p0 s @ [0]\<rparr>"
  have "addState s = (if n < length (p s) then Returns ?a else Throws TypeError ?a)"
    using len n by (simp add: addState_lock_step [OF len] render_outcome Suc_le_eq)
  moreover have "lock_step ?a (n + 1)"
    using assms by (simp add: lock_step_def list_all_iff)
  ultimately have add: "\<exists>s'. addState s =
            (if n < length (p s) then Returns s' else Throws TypeError s') \<and>
            lock_step s' (n + 1) \<and>
            P s' = map (\<lambda>row. row @ [0]) (P s) @ [replicate n 0 @ [1]] \<and>
            p0 s' = p0 s @ [0] \<and> butlast (labels s') = labels s \<and> p s' = p s"
    using n by (intro exI [of _ ?a]) simp
  let ?r = "s\<lparr>labels := butlast (labels s), P := map butlast (butlast (P s)),
      p0 := butlast (p0 s)\<rparr>"
  have rem: "if n = 1 then removeState s = Returns s
          else (\<exists>s'. removeState s =
                   (if n - 1 \<le> length (p s) then Returns s' else Throws TypeError s') \<and>
                 lock_step s' (n - 1) \<and>
                 labels s' = butlast (labels s) \<and>
                 P s' = map butlast (butlast (P s)) \<and>
                 p0 s' = butlast (p0 s) \<and> p s' = p s)"
  proof (cases "n = 1")
    case True
    with n show ?thesis by (simp add: removeState_def)
  next
    case False
    with assms have two: "2 \<le> n" by (simp add: lock_step_def)
    have "removeState s = (if n - 1 \<le> length (p s) then Returns ?r else Throws TypeError ?r)"
      using two n len by (simp add: removeState_def render_outcome)
    moreover have "lock_step ?r (n - 1)"
      using assms two by (auto simp: lock_step_def list_all_iff dest: in_set_butlastD)
    ultimately show ?thesis
      using False by (intro exI [of _ ?r] | simp)+
  qed
  from add rem show ?thesis by blast
qed

theorem add_remove_lock_step_witness:
  "lock_step (weather :: real state) 2 \<and>
   (\<exists>s'. addState (weather :: real state) = Throws TypeError s' \<and> lock_step s' 3 \<and>
      P s' = [[8 / 10, 2 / 10, 0], [4 / 10, 6 / 10, 0], [0, 0, 1]] \<and> p0 s' = [1, 0, 0] \<and>
      p s' = [1, 0]) \<and>
   (\<exists>r. removeState (weather :: real state) = Returns r \<and> lock_step r 1 \<and>
      P r = [[8 / 10]] \<and> p0 r = [1] \<and> p r = [1, 0] \<and>
      removeState r = Returns r \<and>
      (\<exists>a. addState r = Returns a \<and> lock_step a 2 \<and> P a = [[8 / 10, 0], [0, 1]]))"
proof -
  have w: "lock_step (weather :: real state) 2"
    by (simp add: weather_real lock_step_def)
  have pw: "p (weather :: real state) = [1, 0]" "P (weather :: real state) =
      [[8 / 10, 2 / 10], [4 / 10, 6 / 10]]" "p0 (weather :: real state) = [1, 0]"
    by (simp_all add: weather_real)
  from add_remove_lock_step [OF w, THEN conjunct1] pw
  have first: "\<exists>s'. addState (weather :: real state) = Throws TypeError s' \<and> lock_step s' 3 \<and>
      P s' = [[8 / 10, 2 / 10, 0], [4 / 10, 6 / 10, 0], [0, 0, 1]] \<and> p0 s' = [1, 0, 0] \<and>
      p s' = [1, 0]"
    by (auto simp: numeral_2_eq_2 numeral_3_eq_3)
  from add_remove_lock_step [OF w, THEN conjunct2] pw
  obtain r where r: "removeState (weather :: real state) = Returns r" "lock_step r 1"
    "P r = [[8 / 10]]" "p0 r = [1]" "p r = [1, 0]"
    by auto
  from add_remove_lock_step [OF r(2)] r(3,5)
  have "removeState r = Returns r \<and>
      (\<exists>a. addState r = Returns a \<and> lock_step a 2 \<and> P a = [[8 / 10, 0], [0, 1]])"
    by (auto simp: numeral_2_eq_2)
  with w first r show ?thesis by blast
qed


section \<open>The power method\<close>

lemma power_loop_converged:
  assumes "k < maxIter"
    and "\<forall>i<k. \<not> l1 (power_iterate M (Suc i)) (power_iterate M i) < tol"
    and "l1 (power_iterate M (Suc k)) (power_iterate M k) < tol"
  shows "j \<le> k \<Longrightarrow> power_loop M tol maxIter j (power_iterate M j) = power_iterate M (Suc k)"
proof (induction "k - j" arbitrary: j)
  case 0
  then have "j = k" by simp
  with assms show ?case
    by (subst power_loop.simps) (simp add: power_iterate_def)
next
  case (Suc d)
  then have lt: "j < k" and d: "d = k - Suc j" and le: "Suc j \<le> k" by simp_all
  from assms(2) lt have "\<not> l1 (power_iterate M (Suc j)) (power_iterate M j) < tol"
    by auto
  moreover from assms(1) lt have "j < maxIter" by simp
  moreover have "power_loop M tol maxIter (Suc j) (power_iterate M (Suc j)) =
      power_iterate M (Suc k)"
    using Suc.hyps(1) [OF d le] .
  ultimately show ?case
    by (subst power_loop.simps) (simp add: power_iterate_def)
qed

lemma power_loop_exhausted:
  assumes "\<forall>i<maxIter. \<not> l1 (power_iterate M (Suc i)) (power_iterate M i) < tol"
  shows "j \<le> maxIter \<Longrightarrow>
      power_loop M tol maxIter j (power_iterate M j) = power_iterate M maxIter"
proof (induction "maxIter - j" arbitrary: j)
  case 0
  then have "j = maxIter" by simp
  then show ?case
    by (subst power_loop.simps) simp
next
  case (Suc d)
  then have lt: "j < maxIter" and d: "d = maxIter - Suc j" and le: "Suc j \<le> maxIter"
    by simp_all
  from assms lt have "\<not> l1 (power_iterate M (Suc j)) (power_iterate M j) < tol"
    by auto
  moreover have "power_loop M tol maxIter (Suc j) (power_iterate M (Suc j)) =
      power_iterate M maxIter"
    using Suc.hyps(1) [OF d le] .
  ultimately show ?case
    using lt by (subst power_loop.simps) (simp add: power_iterate_def)
qed

text \<open>
  C4. \<open>stationaryDistribution\<close> runs with \<open>tol = 1e-10\<close> and \<open>maxIter = 20000\<close>. The
  iterates start from the uniform vector and each is the previous one times \<open>P\<close>. If \<open>k < maxIter\<close>
  is the first index with \<open>l1(\<pi>\<^sub>k\<^sub>+\<^sub>1, \<pi>\<^sub>k) < tol\<close>, the result is \<open>\<pi>\<^sub>k\<^sub>+\<^sub>1\<close>; if there
  is no such index below \<open>maxIter\<close>, the result is the last iterate \<open>\<pi>\<^sub>m\<^sub>a\<^sub>x\<^sub>I\<^sub>t\<^sub>e\<^sub>r\<close>. The
  function is total: it returns a vector in every case and raises nothing. This holds
  whatever the arithmetic.
\<close>

theorem stationaryDistribution_power_iteration:
  "stationaryDistribution M = stationaryDistribution_with M (1 / ten ^ 10) 20000 \<and>
   power_iterate M 0 = replicate (length M) (1 / num_of_nat (length M)) \<and>
   (\<forall>k. power_iterate M (Suc k) = multRowVecMat (power_iterate M k) M) \<and>
   (\<forall>k. k < maxIter \<and>
        (\<forall>i<k. \<not> l1 (power_iterate M (Suc i)) (power_iterate M i) < tol) \<and>
        l1 (power_iterate M (Suc k)) (power_iterate M k) < tol \<longrightarrow>
        stationaryDistribution_with M tol maxIter = power_iterate M (Suc k)) \<and>
   ((\<forall>i<maxIter. \<not> l1 (power_iterate M (Suc i)) (power_iterate M i) < tol) \<longrightarrow>
        stationaryDistribution_with M tol maxIter = power_iterate M maxIter)"
proof -
  have start: "stationaryDistribution_with M tol maxIter =
      power_loop M tol maxIter 0 (power_iterate M 0)"
    by (simp add: stationaryDistribution_with_def power_iterate_def Let_def)
  have conv: "stationaryDistribution_with M tol maxIter = power_iterate M (Suc k)"
    if "k < maxIter" "\<forall>i<k. \<not> l1 (power_iterate M (Suc i)) (power_iterate M i) < tol"
      "l1 (power_iterate M (Suc k)) (power_iterate M k) < tol" for k
    unfolding start using that by (intro power_loop_converged) simp_all
  have exh: "stationaryDistribution_with M tol maxIter = power_iterate M maxIter"
    if "\<forall>i<maxIter. \<not> l1 (power_iterate M (Suc i)) (power_iterate M i) < tol"
    unfolding start using that by (intro power_loop_exhausted) simp_all
  show ?thesis
    using conv exh by (simp add: stationaryDistribution_def power_iterate_def)
qed

lemma power_iterate_weather_real:
  "power_iterate [[8 / 10, 2 / 10], [4 / 10, 6 / 10 :: real]] 0 = [1 / 2, 1 / 2]"
  "power_iterate [[8 / 10, 2 / 10], [4 / 10, 6 / 10 :: real]] (Suc 0) = [6 / 10, 4 / 10]"
  by (simp_all add: power_iterate_def multRowVecMat_def idx_def num_of_nat_field
      numeral_2_eq_2)

lemma power_iterate_identity_real:
  "power_iterate [[1, 0], [0, 1 :: real]] 0 = [1 / 2, 1 / 2]"
  "power_iterate [[1, 0], [0, 1 :: real]] (Suc 0) = [1 / 2, 1 / 2]"
  by (simp_all add: power_iterate_def multRowVecMat_def idx_def num_of_nat_field
      numeral_2_eq_2)

theorem stationaryDistribution_power_iteration_witness:
  "stationaryDistribution_with [[1, 0], [0, 1 :: real]] (1 / ten ^ 10) 20000 = [1 / 2, 1 / 2] \<and>
   stationaryDistribution_with [[8 / 10, 2 / 10], [4 / 10, 6 / 10 :: real]] (1 / ten ^ 10) 1 =
     [6 / 10, 4 / 10]"
proof -
  have a: "l1 [1 / 2, 1 / 2] [1 / 2, 1 / 2 :: real] < 1 / ten ^ 10"
    by (simp add: l1_def idx_def ten_field numeral_2_eq_2)
  have b: "\<not> l1 [6 / 10, 4 / 10] [1 / 2, 1 / 2 :: real] < 1 / ten ^ 10"
    by (simp add: l1_def idx_def ten_field numeral_2_eq_2)
  note conv = stationaryDistribution_power_iteration
    [of "[[1, 0], [0, 1 :: real]]" 20000 "1 / ten ^ 10",
      THEN conjunct2, THEN conjunct2, THEN conjunct2, THEN conjunct1, rule_format, of 0]
  have "stationaryDistribution_with [[1, 0], [0, 1 :: real]] (1 / ten ^ 10) 20000 =
      power_iterate [[1, 0], [0, 1 :: real]] (Suc 0)"
    using power_iterate_identity_real a by (intro conv) simp_all
  moreover
  note exh = stationaryDistribution_power_iteration
    [of "[[8 / 10, 2 / 10], [4 / 10, 6 / 10 :: real]]" 1 "1 / ten ^ 10",
      THEN conjunct2, THEN conjunct2, THEN conjunct2, THEN conjunct2, rule_format]
  have "stationaryDistribution_with [[8 / 10, 2 / 10], [4 / 10, 6 / 10 :: real]]
      (1 / ten ^ 10) 1 = power_iterate [[8 / 10, 2 / 10], [4 / 10, 6 / 10 :: real]] 1"
    using power_iterate_weather_real b by (intro exh) simp_all
  ultimately show ?thesis
    using power_iterate_weather_real power_iterate_identity_real by simp
qed


section \<open>Adding a state keeps the matrix valid\<close>

lemma foldl_replicate_zero_double: "foldl (+) 0 (replicate n (0 :: double)) = 0"
  by (induction n) (simp_all add: zero_add_zero_double)

lemma row_extended_double:
  fixes row :: "double list"
  shows "(\<exists>x \<in> set (row @ [0]). x < - (1 / ten ^ 12)) = (\<exists>x \<in> set row. x < - (1 / ten ^ 12))"
    and "foldl (+) 0 (row @ [0]) - 1 = foldl (+) 0 row - 1"
  using zero_not_below_neg_eps by (auto simp: add_zero_sub_one)

lemma isRowStochastic_extended_double:
  fixes M :: "double list list"
  shows "isRowStochastic_tol (map (\<lambda>row. row @ [0]) M) tol = isRowStochastic_tol M tol"
  by (simp add: isRowStochastic_tol_iff zero_not_below_neg_eps add_zero_sub_one)

lemma isRowStochastic_new_row_double:
  "isRowStochastic_tol [replicate n 0 @ [1 :: double]] (1 / ten ^ 9)"
proof -
  have "\<not> (\<exists>x \<in> set (replicate n 0 @ [1 :: double]). x < - (1 / ten ^ 12))"
    using zero_not_below_neg_eps one_not_below_neg_eps by auto
  moreover have "foldl (+) 0 (replicate n 0 @ [1 :: double]) = 1"
    by (simp add: foldl_replicate_zero_double zero_add_one_double)
  ultimately show ?thesis
    using zero_not_above_tol9
    by (simp add: list_ex_iff one_minus_one_double abs_zero_double del: foldl_append)
qed

lemma isRowStochastic_tol_append:
  "isRowStochastic_tol (A @ B) tol \<longleftrightarrow> isRowStochastic_tol A tol \<and> isRowStochastic_tol B tol"
  by (auto simp: isRowStochastic_tol_iff)

text \<open>
  C10. In double arithmetic: when the matrix passes \<open>isRowStochastic\<close> and has as many rows
  as there are labels, \<open>addState\<close> makes all its assignments, the matrix it leaves is the
  old one with a \<open>0\<close> appended to every row and the row \<open>(0, \<dots>, 0, 1)\<close> added, and this
  matrix passes \<open>isRowStochastic\<close> too. The handler then returns when \<open>state.p\<close> has more
  entries than there were labels; otherwise its \<open>updateGraph\<close> call raises a TypeError,
  after the assignments, which stay.
\<close>

theorem addState_preserves_isRowStochastic:
  fixes s :: "double state"
  assumes "isRowStochastic (P s)" and "length (P s) = length (labels s)"
  shows "\<exists>s'. addState s =
             (if length (labels s) < length (p s) then Returns s' else Throws TypeError s') \<and>
           P s' = map (\<lambda>row. row @ [0]) (P s) @ [replicate (length (P s)) 0 @ [1]] \<and>
           isRowStochastic (P s')"
proof -
  let ?a = "s\<lparr>labels := labels s @ [''State '' @ string_of_nat (length (labels s) + 1)],
      P := map (\<lambda>row. row @ [0]) (P s) @ [replicate (length (labels s)) 0 @ [1]],
      p0 := p0 s @ [0]\<rparr>"
  have valid: "isRowStochastic_tol
      (map (\<lambda>row. row @ [0]) (P s) @ [replicate (length (P s)) 0 @ [1]]) (1 / ten ^ 9)"
    using assms(1)
    unfolding isRowStochastic_tol_append isRowStochastic_extended_double isRowStochastic_def
    by (simp only: isRowStochastic_new_row_double simp_thms)
  have "addState s =
      (if length (labels s) < length (p s) then Returns ?a else Throws TypeError ?a)"
    using assms(2) by (simp add: addState_lock_step [OF assms(2)] render_outcome Suc_le_eq)
  with valid show ?thesis
    using assms(2) by (intro exI [of _ ?a]) (simp add: isRowStochastic_def)
qed

lemma weather_double:
  "(weather :: double state) =
     \<lparr>labels = [''Sunny'', ''Rainy''],
      P = [[Fin 7205759403792794 (- 53), Fin 7205759403792794 (- 55)],
           [Fin 7205759403792794 (- 54), Fin 5404319552844595 (- 53)]],
      p0 = [1, 0], p = [1, 0], stepIdx = 0, running = False, timer = None, analysis = []\<rparr>"
proof -
  have "normalizeVector [1, 0 :: double] = [1, 0]"
    by (simp add: normalizeVector_def dbl_eval)
  then show ?thesis
    by (simp add: weather_def loadPreset_def resetSim_def blank_def dec_8_1_double
        dec_2_1_double dec_4_1_double dec_6_1_double del: One_nat_def)
qed

lemma weather_matrix_valid_double:
  "isRowStochastic [[Fin 7205759403792794 (- 53), Fin 7205759403792794 (- 55)],
                    [Fin 7205759403792794 (- 54), Fin 5404319552844595 (- 53)]]"
  unfolding isRowStochastic_def tol9_double isRowStochastic_tol.simps neg_eps12_double
  by (simp add: dbl_eval)

theorem addState_preserves_isRowStochastic_witness:
  "isRowStochastic (P (weather :: double state)) \<and>
   (\<exists>s'. addState (weather :: double state) = Throws TypeError s' \<and>
      P s' = [[Fin 7205759403792794 (- 53), Fin 7205759403792794 (- 55), 0],
              [Fin 7205759403792794 (- 54), Fin 5404319552844595 (- 53), 0],
              [0, 0, 1]] \<and>
      isRowStochastic (P s'))"
proof -
  have v: "isRowStochastic (P (weather :: double state))"
    using weather_matrix_valid_double by (simp add: weather_double)
  have l: "length (P (weather :: double state)) = length (labels (weather :: double state))"
    by (simp add: weather_double)
  from addState_preserves_isRowStochastic [OF v l] v show ?thesis
    by (simp add: weather_double numeral_2_eq_2)
qed


section \<open>Absorbing states\<close>

lemma isAbs_iff_double:
  fixes M :: "double list list"
  assumes nn: "\<forall>row \<in> set M. \<forall>x \<in> set row. \<not> is_nan x"
    and sq: "\<forall>row \<in> set M. length row = length M"
    and tol: "\<not> is_nan tol"
    and i: "i < length M"
  shows "isAbs M tol i \<longleftrightarrow>
    (\<forall>j<length M. \<bar>M ! i ! j - (if i = j then 1 else 0)\<bar> \<le> tol)"
proof -
  have row: "M ! i \<in> set M" using i by simp
  have "(\<not> tol < \<bar>idx (M ! i) j - (if i = j then 1 else 0)\<bar>) =
      (\<bar>M ! i ! j - (if i = j then 1 else 0)\<bar> \<le> tol)" if j: "j < length M" for j
  proof -
    from sq row j have in_range: "j < length (M ! i)" by simp
    then have "M ! i ! j \<in> set (M ! i)" by simp
    with nn row have "\<not> is_nan (M ! i ! j)" by blast
    then have "\<not> is_nan \<bar>M ! i ! j - (if i = j then 1 else 0)\<bar>"
      by (rule abs_diff_not_nan)
    from not_less_iff_le_double [OF this tol] in_range show ?thesis
      by (simp add: idx_def)
  qed
  then show ?thesis
    by (simp add: isAbs_def list_all_iff Ball_def split del: if_split)
qed

lemma isAbs_identity_double:
  assumes "i < n"
  shows "isAbs (identity n :: double list list) (1 / ten ^ 12) i"
proof -
  have "idx (identity n ! i :: double list) j = (if i = j then 1 else 0)" if "j < n" for j
    using assms that by (simp add: identity_def idx_def)
  then show ?thesis
    using zero_not_above_eps12
    by (simp add: isAbs_def list_all_iff identity_def one_minus_one_double
        zero_minus_zero_double abs_zero_double)
qed

lemma absorbing_preset_double:
  "P (loadPreset ''absorbing'' (s :: double state)) =
     [[Fin 7656119366529843 (- 53), Fin 7205759403792794 (- 56), Fin 7205759403792794 (- 57)],
      [0, 1, 0], [0, 0, 1]]"
  by (simp add: loadPreset_def resetSim_def dec_85_2_double dec_10_2_double dec_5_2_double)

lemma absorbingStates_preset_double:
  "absorbingStates
     [[Fin 7656119366529843 (- 53), Fin 7205759403792794 (- 56), Fin 7205759403792794 (- 57)],
      [0, 1, 0], [0, 0, 1 :: double]] = [1, 2]"
  unfolding absorbingStates_def eps12_double
  by (simp add: absorbingStates_tol_def isAbs_def idx_def upt_rec dbl_eval)

text \<open>
  C6. In double arithmetic, for a square matrix whose entries are numbers (none is NaN)
  and a tolerance that is a number: \<open>i\<close> is in \<open>absorbingStates(P, tol)\<close> if and only if
  \<open>i\<close> is a row index and \<open>|P[i][j] - (1 if i = j else 0)| \<le> tol\<close> for every column \<open>j\<close>.
  The default tolerance is \<open>1e-12\<close>. The \<open>n \<times> n\<close> identity matrix gives all \<open>n\<close>
  indices, and the matrix of the absorbing preset gives the indices 1 and 2.
\<close>

theorem absorbingStates_iff:
  fixes M :: "double list list"
  assumes "\<forall>row \<in> set M. length row = length M"
    and "\<forall>row \<in> set M. \<forall>x \<in> set row. \<not> is_nan x"
    and "\<not> is_nan tol"
  shows "(i \<in> set (absorbingStates_tol M tol) \<longleftrightarrow>
            i < length M \<and>
            (\<forall>j<length M. \<bar>M ! i ! j - (if i = j then 1 else 0)\<bar> \<le> tol)) \<and>
         absorbingStates M = absorbingStates_tol M (1 / ten ^ 12) \<and>
         absorbingStates (identity n :: double list list) = [0..<n] \<and>
         absorbingStates (P (loadPreset ''absorbing'' (s :: double state))) = [1, 2]"
proof -
  have "i \<in> set (absorbingStates_tol M tol) \<longleftrightarrow>
      i < length M \<and> (\<forall>j<length M. \<bar>M ! i ! j - (if i = j then 1 else 0)\<bar> \<le> tol)"
    using isAbs_iff_double [OF assms(2) assms(1) assms(3), of i]
    by (simp add: absorbingStates_tol_def split del: if_split cong: conj_cong)
  moreover have "absorbingStates (identity n :: double list list) = [0..<n]"
  proof -
    have "length (identity n :: double list list) = n"
      by (simp add: identity_def)
    then show ?thesis
      by (simp add: absorbingStates_def absorbingStates_tol_def isAbs_identity_double
          filter_id_conv)
  qed
  moreover have "absorbingStates M = absorbingStates_tol M (1 / ten ^ 12)"
    by (simp add: absorbingStates_def)
  moreover have "absorbingStates (P (loadPreset ''absorbing'' (s :: double state))) = [1, 2]"
    by (simp only: absorbing_preset_double absorbingStates_preset_double)
  ultimately show ?thesis
    by blast
qed

theorem absorbingStates_iff_witness:
  "1 \<in> set (absorbingStates_tol
      [[Fin 7656119366529843 (- 53), Fin 7205759403792794 (- 56), Fin 7205759403792794 (- 57)],
       [0, 1, 0], [0, 0, 1 :: double]] (1 / ten ^ 12)) \<and>
   0 \<notin> set (absorbingStates_tol
      [[Fin 7656119366529843 (- 53), Fin 7205759403792794 (- 56), Fin 7205759403792794 (- 57)],
       [0, 1, 0], [0, 0, 1 :: double]] (1 / ten ^ 12))"
proof -
  let ?M = "[[Fin 7656119366529843 (- 53), Fin 7205759403792794 (- 56),
      Fin 7205759403792794 (- 57)], [0, 1, 0], [0, 0, 1 :: double]]"
  have sq: "\<forall>row \<in> set ?M. length row = length ?M"
    by simp
  have nn: "\<forall>row \<in> set ?M. \<forall>x \<in> set row. \<not> is_nan x"
    by (simp add: zero_double_def one_double_def)
  have tol: "\<not> is_nan (1 / ten ^ 12 :: double)"
    by (simp add: eps12_double)
  have eq: "absorbingStates_tol ?M (1 / ten ^ 12) = [1, 2]"
    using absorbingStates_preset_double by (simp add: absorbingStates_def)
  from absorbingStates_iff [OF sq nn tol, of 1] absorbingStates_iff [OF sq nn tol, of 0]
  show ?thesis
    by (simp add: eq)
qed


section \<open>Sums in exact arithmetic\<close>





section \<open>Conservation of probability mass\<close>

lemma mult_weather_double:
  "multRowVecMat [Fin 7205759403792794 (- 53), Fin 7205759403792794 (- 55)]
     [[Fin 7205759403792794 (- 53), Fin 7205759403792794 (- 55)],
      [Fin 7205759403792794 (- 54), Fin 5404319552844595 (- 53)]] =
   [Fin 6485183463413516 (- 53), Fin 5044031582654956 (- 54)]"
  by (simp add: multRowVecMat_def idx_def upt_rec dbl_eval)






section \<open>Normalising a row\<close>







section \<open>Stepping the weather chain\<close>

lemma sync_weather_config_double:
  fixes s :: "double state"
  assumes "weather_config s"
  shows "syncFromInputs weather_dom s = Inr s"
proof -
  have c: "checked_input (Some (Fin 7205759403792794 (- 53))) = Fin 7205759403792794 (- 53)"
    "checked_input (Some (Fin 7205759403792794 (- 55))) = Fin 7205759403792794 (- 55)"
    "checked_input (Some (Fin 7205759403792794 (- 54))) = Fin 7205759403792794 (- 54)"
    "checked_input (Some (Fin 5404319552844595 (- 53))) = Fin 5404319552844595 (- 53)"
    "checked_input (Some (1 :: double)) = 1"
    "checked_input (Some (0 :: double)) = 0"
    by (simp_all add: checked_input_def dbl_eval)
  obtain l M v0 v t r tm a where s: "s = \<lparr>labels = l, P = M, p0 = v0, p = v, stepIdx = t,
      running = r, timer = tm, analysis = a\<rparr>"
    by (cases s)
  from assms show ?thesis
    unfolding s weather_config_def syncFromInputs_def weather_dom_def
      dec_8_1_double dec_2_1_double dec_4_1_double dec_6_1_double
    by (simp add: sync_cell_def sync_init_def sync_name_def js_set_def c)
qed

lemma sync_weather_config_real:
  fixes s :: "real state"
  assumes "weather_config s"
  shows "syncFromInputs weather_dom s = Inr s"
proof -
  obtain l M v0 v t r tm a where s: "s = \<lparr>labels = l, P = M, p0 = v0, p = v, stepIdx = t,
      running = r, timer = tm, analysis = a\<rparr>"
    by (cases s)
  from assms show ?thesis
    unfolding s weather_config_def syncFromInputs_def weather_dom_def
    by (simp add: sync_cell_def sync_init_def sync_name_def js_set_def checked_input_def
        dec_field)
qed

lemma stepOnce_weather_config_double:
  fixes s :: "double state"
  assumes "weather_config s"
  shows "stepOnce weather_dom s =
     Inr (s\<lparr>stepIdx := stepIdx s + 1,
            p := multRowVecMat (p s)
              [[Fin 7205759403792794 (- 53), Fin 7205759403792794 (- 55)],
               [Fin 7205759403792794 (- 54), Fin 5404319552844595 (- 53)]]\<rparr>)"
proof -
  from assms have M: "P s = [[Fin 7205759403792794 (- 53), Fin 7205759403792794 (- 55)],
      [Fin 7205759403792794 (- 54), Fin 5404319552844595 (- 53)]]"
    by (simp add: weather_config_def dec_8_1_double dec_2_1_double dec_4_1_double
        dec_6_1_double del: One_nat_def)
  show ?thesis
    using weather_matrix_valid_double
    by (simp add: stepOnce_def sync_weather_config_double [OF assms] M)
qed

lemma stepOnce_weather_config_real:
  fixes s :: "real state"
  assumes "weather_config s"
  shows "stepOnce weather_dom s =
     Inr (s\<lparr>stepIdx := stepIdx s + 1,
            p := multRowVecMat (p s) [[8 / 10, 2 / 10], [4 / 10, 6 / 10]]\<rparr>)"
proof -
  from assms have M: "P s = [[8 / 10, 2 / 10], [4 / 10, 6 / 10]]"
    by (simp add: weather_config_def dec_field)
  have "isRowStochastic [[8 / 10, 2 / 10], [4 / 10, 6 / 10 :: real]]"
    by (simp add: isRowStochastic_def ten_field)
  then show ?thesis
    by (simp add: stepOnce_def sync_weather_config_real [OF assms] M)
qed

lemma weather_config_weather: "weather_config weather"
  by (simp add: weather_config_def weather_def loadPreset_def resetSim_def blank_def)

lemma weather_fields_double:
  "p (weather :: double state) = [1, 0]" "stepIdx (weather :: double state) = 0"
  "running (weather :: double state) = False" "timer (weather :: double state) = None"
  by (simp_all add: weather_double)

lemma weather_fields_real:
  "p (weather :: real state) = [1, 0]" "stepIdx (weather :: real state) = 0"
  by (simp_all add: weather_real)

lemma mult_start_double:
  "multRowVecMat [1, 0]
     [[Fin 7205759403792794 (- 53), Fin 7205759403792794 (- 55)],
      [Fin 7205759403792794 (- 54), Fin 5404319552844595 (- 53)]] =
   [Fin 7205759403792794 (- 53), Fin 7205759403792794 (- 55)]"
  by (simp add: multRowVecMat_def idx_def upt_rec dbl_eval)

lemma second_step_error_double:
  "Fin 6485183463413516 (- 53) - dec 72 2 = Fin 4503599627370496 (- 104)"
  unfolding dec_72_2_double by (simp add: dbl_eval)

text \<open>
  C1, as stated, fails in double arithmetic at its second example: from the weather preset
  the first step gives \<open>p = [0.8, 0.2]\<close>, and the second gives
  \<open>[0.7200000000000002, 0.28]\<close>, whose first entry is not the number \<open>0.72\<close>.
\<close>

theorem second_step_double_counterexample:
  "\<not> (\<exists>t1 t2. stepOnce weather_dom (weather :: double state) = Inr t1 \<and>
         stepOnce weather_dom t1 = Inr t2 \<and> p t2 = [dec 72 2, dec 28 2])"
proof
  assume "\<exists>t1 t2. stepOnce weather_dom (weather :: double state) = Inr t1 \<and>
         stepOnce weather_dom t1 = Inr t2 \<and> p t2 = [dec 72 2, dec 28 2]"
  then obtain t1 t2 where a: "stepOnce weather_dom (weather :: double state) = Inr t1"
    and b: "stepOnce weather_dom t1 = Inr t2" and c: "p t2 = [dec 72 2, dec 28 2]"
    by blast
  from a have t1: "t1 = weather\<lparr>stepIdx := 1,
      p := [Fin 7205759403792794 (- 53), Fin 7205759403792794 (- 55)]\<rparr>"
    by (simp add: stepOnce_weather_config_double [OF weather_config_weather]
        weather_fields_double mult_start_double)
  have "weather_config t1"
    using weather_config_weather [where ?'a = double] by (simp add: t1 weather_config_def)
  from b stepOnce_weather_config_double [OF this]
  have "p t2 = [Fin 6485183463413516 (- 53), Fin 5044031582654956 (- 54)]"
    by (auto simp: t1 mult_weather_double)
  with c show False
    by (simp add: dec_72_2_double)
qed

text \<open>
  C1, amended. Whenever the matrix that \<open>stepOnce\<close> checks (the state's matrix once
  \<open>syncFromInputs\<close> has read the inputs) passes \<open>isRowStochastic\<close>, the call replaces \<open>p\<close>
  by \<open>multRowVecMat(p, P)\<close> and adds exactly \<open>1\<close> to \<open>stepIdx\<close>, whatever the arithmetic.
  From the weather preset (\<open>p = [1, 0]\<close>), in double arithmetic the first step gives
  \<open>[0.8, 0.2]\<close> and the second \<open>[0.7200000000000002, 0.28]\<close>, whose first entry exceeds
  \<open>0.72\<close> by \<open>2^-52\<close>; in exact arithmetic the second step gives \<open>[0.72, 0.28]\<close>.
\<close>

theorem stepOnce_valid:
  assumes "syncFromInputs d s = Inr s1" and "isRowStochastic (P s1)"
  shows "stepOnce d s = Inr (s1\<lparr>stepIdx := stepIdx s + 1, p := multRowVecMat (p s) (P s1)\<rparr>) \<and>
         p (weather :: double state) = [1, 0] \<and>
         (\<exists>t1 t2. stepOnce weather_dom (weather :: double state) = Inr t1 \<and>
            p t1 = [dec 8 1, dec 2 1] \<and> stepIdx t1 = 1 \<and>
            stepOnce weather_dom t1 = Inr t2 \<and>
            p t2 = [Fin 6485183463413516 (- 53), dec 28 2] \<and> stepIdx t2 = 2 \<and>
            p t2 ! 0 - dec 72 2 = Fin 4503599627370496 (- 104)) \<and>
         (\<exists>u1 u2. stepOnce weather_dom (weather :: real state) = Inr u1 \<and>
            p u1 = [8 / 10, 2 / 10] \<and> stepIdx u1 = 1 \<and>
            stepOnce weather_dom u1 = Inr u2 \<and>
            p u2 = [72 / 100, 28 / 100] \<and> stepIdx u2 = 2)"
proof -
  have general: "stepOnce d s =
      Inr (s1\<lparr>stepIdx := stepIdx s + 1, p := multRowVecMat (p s) (P s1)\<rparr>)"
    using assms syncFromInputs_same_session [OF assms(1)]
    by (simp add: stepOnce_def same_session_def)
  let ?d1 = "(weather :: double state)\<lparr>stepIdx := 1,
      p := [Fin 7205759403792794 (- 53), Fin 7205759403792794 (- 55)]\<rparr>"
  let ?d2 = "?d1\<lparr>stepIdx := 2,
      p := [Fin 6485183463413516 (- 53), Fin 5044031582654956 (- 54)]\<rparr>"
  have d1: "stepOnce weather_dom (weather :: double state) = Inr ?d1"
    by (simp add: stepOnce_weather_config_double [OF weather_config_weather]
        weather_fields_double mult_start_double)
  have "weather_config ?d1"
    using weather_config_weather [where ?'a = double] by (simp add: weather_config_def)
  from stepOnce_weather_config_double [OF this]
  have d2: "stepOnce weather_dom ?d1 = Inr ?d2"
    by (simp add: mult_weather_double)
  have dbl: "\<exists>t1 t2. stepOnce weather_dom (weather :: double state) = Inr t1 \<and>
            p t1 = [dec 8 1, dec 2 1] \<and> stepIdx t1 = 1 \<and>
            stepOnce weather_dom t1 = Inr t2 \<and>
            p t2 = [Fin 6485183463413516 (- 53), dec 28 2] \<and> stepIdx t2 = 2 \<and>
            p t2 ! 0 - dec 72 2 = Fin 4503599627370496 (- 104)"
    using d1 d2 second_step_error_double
    by (intro exI [of _ ?d1] exI [of _ ?d2])
      (simp add: dec_8_1_double dec_2_1_double dec_28_2_double del: One_nat_def)
  let ?r1 = "(weather :: real state)\<lparr>stepIdx := 1, p := [8 / 10, 2 / 10]\<rparr>"
  let ?r2 = "?r1\<lparr>stepIdx := 2, p := [72 / 100, 28 / 100]\<rparr>"
  have r1: "stepOnce weather_dom (weather :: real state) = Inr ?r1"
    by (simp add: stepOnce_weather_config_real [OF weather_config_weather]
        weather_fields_real multRowVecMat_def idx_def upt_rec)
  have "weather_config ?r1"
    using weather_config_weather [where ?'a = real] by (simp add: weather_config_def)
  from stepOnce_weather_config_real [OF this]
  have r2: "stepOnce weather_dom ?r1 = Inr ?r2"
    by (simp add: multRowVecMat_def idx_def upt_rec)
  have rl: "\<exists>u1 u2. stepOnce weather_dom (weather :: real state) = Inr u1 \<and>
            p u1 = [8 / 10, 2 / 10] \<and> stepIdx u1 = 1 \<and>
            stepOnce weather_dom u1 = Inr u2 \<and>
            p u2 = [72 / 100, 28 / 100] \<and> stepIdx u2 = 2"
    using r1 r2 by (intro exI [of _ ?r1] exI [of _ ?r2]) simp
  have "p (weather :: double state) = [1, 0]"
    by (simp add: weather_double)
  with general dbl rl show ?thesis by blast
qed

theorem stepOnce_valid_witness:
  "stepOnce weather_dom (weather :: double state) =
     Inr (weather\<lparr>stepIdx := 1, p := [dec 8 1, dec 2 1]\<rparr>)"
proof -
  have sync: "syncFromInputs weather_dom (weather :: double state) = Inr weather"
    by (rule sync_weather_config_double [OF weather_config_weather])
  have valid: "isRowStochastic (P (weather :: double state))"
    using weather_matrix_valid_double by (simp add: weather_double)
  have M: "P (weather :: double state) =
      [[Fin 7205759403792794 (- 53), Fin 7205759403792794 (- 55)],
       [Fin 7205759403792794 (- 54), Fin 5404319552844595 (- 53)]]"
    by (simp add: weather_double)
  from stepOnce_valid [OF sync valid, THEN conjunct1] show ?thesis
    by (simp add: M weather_fields_double mult_start_double dec_8_1_double dec_2_1_double
        del: One_nat_def)
qed


section \<open>Cancelling the run loop\<close>

lemma pause_frozen: "frozen (st w) (st (pause w)) \<and> \<not> running (st (pause w))"
  by (simp add: pause_def frozen_def clearTimeout_def Let_def split: option.splits)

lemma pause_withdraws:
  "timer (st w) = Some h \<Longrightarrow> h \<noteq> 0 \<Longrightarrow> h \<notin> fst ` set (pending (pause w))"
  by (auto simp: pause_def clearTimeout_def Let_def)

lemma handle_quiet:
  assumes "\<not> running (st w)" and "quiet ev"
  shows "\<exists>w'. handle_event ev w = Inr w' \<and> \<not> running (st w') \<and> frozen (st w) (st w')"
proof (cases ev)
  case (ClickRun d)
  with assms show ?thesis by simp
next
  case ClickPause
  then show ?thesis
    using pause_frozen [of w] by (simp add: handle_event_def)
next
  case (TimerFires h d)
  with assms show ?thesis
    by (simp add: handle_event_def tick_def clearTimeout_def frozen_def split: option.splits)
next
  case TabHidden
  with assms show ?thesis
    by (simp add: handle_event_def frozen_def)
qed

lemma run_events_quiet:
  "\<not> running (st w) \<Longrightarrow> list_all quiet evs \<Longrightarrow>
   \<exists>w'. run_events evs w = Inr w' \<and> \<not> running (st w') \<and> frozen (st w) (st w')"
proof (induction evs arbitrary: w)
  case Nil
  then show ?case by (simp add: run_events_def frozen_def)
next
  case (Cons ev evs)
  then have "quiet ev" and rest: "list_all quiet evs" by simp_all
  from handle_quiet [OF Cons.prems(1) this(1)] obtain w1 where
    w1: "handle_event ev w = Inr w1" "\<not> running (st w1)" "frozen (st w) (st w1)"
    by blast
  from Cons.IH [OF w1(2) rest] obtain w' where
    "run_events evs w1 = Inr w'" "\<not> running (st w')" "frozen (st w1) (st w')"
    by blast
  with w1 show ?case
    by (auto simp: run_events_def frozen_def)
qed

lemma run_events_append:
  "run_events (xs @ ys) w =
     (case run_events xs w of Inl e \<Rightarrow> Inl e | Inr w' \<Rightarrow> run_events ys w')"
  unfolding run_events_def
  by (induction xs arbitrary: w) (simp_all split: sum.splits)

lemma tick_weather_double:
  fixes w :: "double world"
  assumes "weather_config (st w)" and "running (st w)"
    and "\<not> m \<le> num_of_nat (stepIdx (st w) + 1)"
  shows "tick m weather_dom w =
     Inr (w\<lparr>st := (st w)\<lparr>stepIdx := stepIdx (st w) + 1,
                 p := multRowVecMat (p (st w))
                   [[Fin 7205759403792794 (- 53), Fin 7205759403792794 (- 55)],
                    [Fin 7205759403792794 (- 54), Fin 5404319552844595 (- 53)]],
                 timer := Some (Suc (created w))\<rparr>,
           pending := pending w @ [(Suc (created w), m)], created := Suc (created w)\<rparr>)"
  using assms(2,3)
  by (simp add: tick_def stepOnce_weather_config_double [OF assms(1)] Let_def)

lemma maxSteps_weather_double:
  "clamp_maxSteps (maxSteps_value (weather_dom :: double dom)) = Fin 8796093022208000 (- 42)"
  unfolding weather_dom_def clamp_maxSteps_def two_thousand_double two_hundred_double
  by (simp add: dbl_eval)

lemma below_maxSteps_double:
  "\<not> Fin 8796093022208000 (- 42) \<le> (num_of_nat (Suc 0) :: double)"
  "\<not> Fin 8796093022208000 (- 42) \<le> (num_of_nat (Suc (Suc 0)) :: double)"
  "\<not> Fin 8796093022208000 (- 42) \<le> (num_of_nat (Suc (Suc (Suc 0))) :: double)"
  by (simp_all add: dbl_eval)

lemma three_ticks_then_pause_double:
  "\<exists>v. run_events [ClickRun weather_dom, TimerFires 1 weather_dom, TimerFires 2 weather_dom,
        ClickPause] (weather_world :: double world) =
      Inr \<lparr>st = weather\<lparr>p := v, stepIdx := 3, running := False, timer := None\<rparr>,
           pending = [], created = 3\<rparr>"
proof -
  let ?m = "Fin 8796093022208000 (- 42)"
  let ?W = "[[Fin 7205759403792794 (- 53), Fin 7205759403792794 (- 55)],
      [Fin 7205759403792794 (- 54), Fin 5404319552844595 (- 53)]]"
  let ?v1 = "multRowVecMat [1, 0] ?W"
  let ?v2 = "multRowVecMat ?v1 ?W"
  let ?v3 = "multRowVecMat ?v2 ?W"
  let ?w0 = "\<lparr>st = (weather :: double state)\<lparr>running := True\<rparr>, pending = [], created = 0\<rparr>"
  let ?w1 = "\<lparr>st = (weather :: double state)\<lparr>p := ?v1, stepIdx := 1, running := True,
      timer := Some 1\<rparr>, pending = [(1, ?m)], created = 1\<rparr>"
  let ?w1' = "\<lparr>st = (weather :: double state)\<lparr>p := ?v1, stepIdx := 1, running := True,
      timer := Some 1\<rparr>, pending = [], created = 1\<rparr>"
  let ?w2 = "\<lparr>st = (weather :: double state)\<lparr>p := ?v2, stepIdx := 2, running := True,
      timer := Some 2\<rparr>, pending = [(2, ?m)], created = 2\<rparr>"
  let ?w2' = "\<lparr>st = (weather :: double state)\<lparr>p := ?v2, stepIdx := 2, running := True,
      timer := Some 2\<rparr>, pending = [], created = 2\<rparr>"
  let ?w3 = "\<lparr>st = (weather :: double state)\<lparr>p := ?v3, stepIdx := 3, running := True,
      timer := Some 3\<rparr>, pending = [(3, ?m)], created = 3\<rparr>"
  let ?w4 = "\<lparr>st = (weather :: double state)\<lparr>p := ?v3, stepIdx := 3, running := False,
      timer := None\<rparr>, pending = [], created = 3\<rparr>"
  note cfg = weather_config_weather [where ?'a = double, unfolded weather_config_def]
  have t0: "tick ?m weather_dom ?w0 = Inr ?w1"
    using tick_weather_double [of ?w0 ?m] below_maxSteps_double cfg
    by (simp add: weather_config_def weather_fields_double)
  have t1: "tick ?m weather_dom ?w1' = Inr ?w2"
    using tick_weather_double [of ?w1' ?m] below_maxSteps_double cfg
    by (simp add: weather_config_def)
  have t2: "tick ?m weather_dom ?w2' = Inr ?w3"
    using tick_weather_double [of ?w2' ?m] below_maxSteps_double cfg
    by (simp add: weather_config_def numeral_3_eq_3)
  have e1: "handle_event (ClickRun weather_dom) (weather_world :: double world) = Inr ?w1"
    using t0
    by (simp add: handle_event_def run_def weather_world_def weather_fields_double
        maxSteps_weather_double)
  have e2: "handle_event (TimerFires 1 weather_dom) ?w1 = Inr ?w2"
    using t1 by (simp add: handle_event_def clearTimeout_def)
  have e3: "handle_event (TimerFires 2 weather_dom) ?w2 = Inr ?w3"
    using t2 by (simp add: handle_event_def clearTimeout_def)
  have e4: "handle_event ClickPause ?w3 = Inr ?w4"
    by (simp add: handle_event_def pause_def clearTimeout_def Let_def)
  have "run_events [ClickRun weather_dom, TimerFires 1 weather_dom, TimerFires 2 weather_dom,
        ClickPause] (weather_world :: double world) = Inr ?w4"
    using e1 e2 e3 e4 by (simp add: run_events_def)
  then show ?thesis by blast
qed

text \<open>
  C9. Once \<open>pause\<close> has cleared \<open>state.running\<close>, whatever timeouts fire and however
  often Pause is clicked or the tab is hidden, every event is handled without error and
  leaves \<open>stepIdx\<close>, \<open>p\<close> and the analysis box as they were, with \<open>running\<close> still false
  (until Run is clicked again); and \<open>pause\<close> removes the timeout \<open>state.timer\<close> from the
  browser's pending ones. This holds whatever the arithmetic. In double arithmetic, from
  the weather preset: a run started with \<open>maxSteps = 2000\<close> whose first tick runs at once
  and whose next two run from the timeouts 1 and 2, then paused, has \<open>stepIdx = 3\<close>, and
  still has after any such later events.
\<close>

theorem cancelled_run_stops:
  "(\<forall>evs. list_all quiet evs \<longrightarrow>
      (\<exists>w'. run_events evs (pause w) = Inr w' \<and> \<not> running (st w') \<and>
         stepIdx (st w') = stepIdx (st w) \<and> p (st w') = p (st w) \<and>
         analysis (st w') = analysis (st w))) \<and>
   (\<forall>h. timer (st w) = Some h \<and> h \<noteq> 0 \<longrightarrow> h \<notin> fst ` set (pending (pause w))) \<and>
   clamp_maxSteps (maxSteps_value (weather_dom :: double dom)) = (1 + 1) * ten ^ 3 \<and>
   (\<forall>evs. list_all quiet evs \<longrightarrow>
      (\<exists>w'. run_events
           ([ClickRun weather_dom, TimerFires 1 weather_dom, TimerFires 2 weather_dom,
             ClickPause] @ evs) (weather_world :: double world) = Inr w' \<and>
         stepIdx (st w') = 3 \<and> \<not> running (st w')))"
proof -
  have a: "\<exists>w'. run_events evs (pause w) = Inr w' \<and> \<not> running (st w') \<and>
         stepIdx (st w') = stepIdx (st w) \<and> p (st w') = p (st w) \<and>
         analysis (st w') = analysis (st w)" if "list_all quiet evs" for evs
  proof -
    from pause_frozen [of w] have "\<not> running (st (pause w))" and f: "frozen (st w) (st (pause w))"
      by simp_all
    from run_events_quiet [OF this(1) that] obtain w' where
      "run_events evs (pause w) = Inr w'" "\<not> running (st w')" "frozen (st (pause w)) (st w')"
      by blast
    with f show ?thesis
      by (auto simp: frozen_def)
  qed
  have b: "\<forall>h. timer (st w) = Some h \<and> h \<noteq> 0 \<longrightarrow> h \<notin> fst ` set (pending (pause w))"
    using pause_withdraws [of w] by blast
  have c: "clamp_maxSteps (maxSteps_value (weather_dom :: double dom)) = (1 + 1) * ten ^ 3"
    by (simp only: maxSteps_weather_double two_thousand_double)
  have d: "\<exists>w'. run_events
           ([ClickRun weather_dom, TimerFires 1 weather_dom, TimerFires 2 weather_dom,
             ClickPause] @ evs) (weather_world :: double world) = Inr w' \<and>
         stepIdx (st w') = 3 \<and> \<not> running (st w')" if q: "list_all quiet evs" for evs
  proof -
    from three_ticks_then_pause_double obtain v where
      r: "run_events [ClickRun weather_dom, TimerFires 1 weather_dom, TimerFires 2 weather_dom,
        ClickPause] (weather_world :: double world) =
      Inr \<lparr>st = weather\<lparr>p := v, stepIdx := 3, running := False, timer := None\<rparr>,
           pending = [], created = 3\<rparr>" (is "_ = Inr ?w4")
      by blast
    have "\<not> running (st ?w4)" by simp
    from run_events_quiet [OF this q] obtain w' where
      w': "run_events evs ?w4 = Inr w'" "\<not> running (st w')" "frozen (st ?w4) (st w')"
      by blast
    have "run_events
           ([ClickRun weather_dom, TimerFires 1 weather_dom, TimerFires 2 weather_dom,
             ClickPause] @ evs) (weather_world :: double world) = Inr w'"
      by (simp only: run_events_append r sum.case w')
    moreover from w'(3) have "stepIdx (st w') = 3"
      by (simp add: frozen_def)
    ultimately show ?thesis
      using w'(2) by blast
  qed
  from a b c d show ?thesis by blast
qed

theorem cancelled_run_stops_witness:
  "\<exists>w'. run_events
      ([ClickRun weather_dom, TimerFires 1 weather_dom, TimerFires 2 weather_dom, ClickPause] @
       [TimerFires 3 weather_dom, TabHidden, TimerFires 3 invalid_dom, ClickPause])
      (weather_world :: double world) = Inr w' \<and>
    stepIdx (st w') = 3 \<and> \<not> running (st w')"
proof -
  have "list_all quiet
      [TimerFires 3 weather_dom, TabHidden, TimerFires 3 invalid_dom, ClickPause :: double event]"
    by simp
  with cancelled_run_stops [of "weather_world :: double world"] show ?thesis
    by blast
qed

end
